(* ===== verification/Prelude.thy ===== *)
theory Prelude
  imports Complex_Main "HOL-Library.Word"
begin

text \<open>
  Shared vocabulary of the development: the collections of rewrite rules the component
  theories fill, the exception monad on sums that models Python's \<open>try\<close> blocks
  (\<open>Inl\<close> is a raised exception, \<open>Inr\<close> a returned value), and generic lemmas on
  \<open>find\<close> and list counting that the pipeline and loop proofs share.
\<close>

named_theorems sdk_simps "evaluation rules of the modelled SDK calls"
named_theorems pipeline_defs "definitions of the stages of the transaction pipeline"
named_theorems store_simps "rewrite rules of the market store operations"

type_synonym py_float = rat
type_synonym market_key = string

section \<open>Exceptions as sums\<close>

definition bind_sum :: "'e + 'a \<Rightarrow> ('a \<Rightarrow> 'e + 'b) \<Rightarrow> 'e + 'b" where
  "bind_sum m f = (case m of Inl e \<Rightarrow> Inl e | Inr a \<Rightarrow> f a)"

lemma bind_sum_Inl [simp]: "bind_sum (Inl e) f = Inl e"
  by (simp add: bind_sum_def)

lemma bind_sum_Inr [simp]: "bind_sum (Inr a) f = f a"
  by (simp add: bind_sum_def)

lemma bind_sum_if [simp]:
  "bind_sum (if b then x else y) f = (if b then bind_sum x f else bind_sum y f)"
  by simp

lemma bind_sum_eq_Inr:
  "bind_sum m f = Inr b \<longleftrightarrow> (\<exists>a. m = Inr a \<and> f a = Inr b)"
  by (cases m) simp_all

lemma bind_sum_eq_Inl:
  "bind_sum m f = Inl e \<longleftrightarrow> m = Inl e \<or> (\<exists>a. m = Inr a \<and> f a = Inl e)"
  by (cases m) simp_all

section \<open>First failure in a sequence of calls\<close>

text \<open>
  A straight-line block of calls inside one \<open>try\<close> stops at the first call that
  raises. \<open>find\<close> names that call; these rules let the simplifier walk a concrete
  call list one element at a time.
\<close>

lemma find_Cons_if: "find P (x # xs) = (if P x then Some x else find P xs)"
  by simp

lemma case_option_if_distrib:
  "(case (if b then Some x else y) of None \<Rightarrow> f | Some z \<Rightarrow> g z) =
   (if b then g x else (case y of None \<Rightarrow> f | Some z \<Rightarrow> g z))"
  by simp

lemma find_Some_mem: "find P xs = Some x \<Longrightarrow> x \<in> set xs \<and> P x"
  by (auto simp: find_Some_iff)

lemma find_None_all: "find P xs = None \<longleftrightarrow> (\<forall>x \<in> set xs. \<not> P x)"
  by (auto simp: find_None_iff)

section \<open>Counting in lists\<close>

lemma count_list_append_single:
  "count_list (xs @ [y]) x = count_list xs x + (if x = y then 1 else 0)"
  by (induction xs) simp_all

lemma count_list_map_filter_append:
  "count_list (map f (filter P (xs @ [y]))) x =
   count_list (map f (filter P xs)) x + (if P y \<and> f y = x then 1 else 0)"
  by (simp add: count_list_append_single)

end
