(* ===== verification/Python_Runtime.thy ===== *)
theory Python_Runtime
  imports Prelude
begin

text \<open>
  The parts of Python's runtime semantics that \<open>src/Oracle/worker.py\<close> relies on and
  whose behaviour a claim depends on:
  \<^item> floats: a Python \<open>float\<close> is an IEEE 754 binary64 number. It is modelled as the
    rational number it denotes (\<open>py_float = rat\<close>), and every arithmetic result is
    rounded to the nearest binary64 value, ties to even (\<open>round_binary64\<close>). The
    exponent range is not bounded: no overflow to infinity, no subnormals. The values
    the program computes are far inside the normal range.
  \<^item> \<open>int / int\<close> is correctly rounded true division. It raises
    \<open>ZeroDivisionError\<close> on a zero divisor (\<open>py_truediv\<close>).
  \<^item> comparisons of floats are exact comparisons of the rationals.
  \<^item> \<open>int(x)\<close> of a float truncates towards zero (\<open>py_int\<close>).
  \<^item> \<open>str(n)\<close> of an int is its decimal numeral (\<open>py_str_int\<close>), as used in f-strings.
  \<^item> the truth value of an optional string (\<open>not s\<close> is true for \<open>None\<close> and \<open>''''\<close>).
\<close>

datatype py_exception = ZeroDivisionError

section \<open>Binary64 rounding\<close>

fun log2_floor :: "nat \<Rightarrow> nat" where
  "log2_floor n = (if n < 2 then 0 else Suc (log2_floor (n div 2)))"

declare log2_floor.simps [simp del]

definition pow2i :: "int \<Rightarrow> rat" where
  "pow2i e = (if 0 \<le> e then 2 ^ nat e else 1 / 2 ^ nat (- e))"

text \<open>\<open>binade y\<close> is the exponent \<open>e\<close> with \<open>2^e \<le> y < 2^(e+1)\<close>, for \<open>y > 0\<close>.\<close>

definition binade :: "rat \<Rightarrow> int" where
  "binade y = (if 1 \<le> y then int (log2_floor (nat \<lfloor>y\<rfloor>))
               else - 1 - int (log2_floor (nat (\<lceil>1 / y\<rceil> - 1))))"

definition round_even :: "rat \<Rightarrow> int" where
  "round_even r = (let f = \<lfloor>r\<rfloor>; d = r - of_int f in
     if d < 1 / 2 then f else if 1 / 2 < d then f + 1 else if even f then f else f + 1)"

text \<open>Round to the nearest number with a 53-bit significand, ties to even.\<close>

definition round_binary64 :: "rat \<Rightarrow> py_float" where
  "round_binary64 x = (if x = 0 then 0 else
     let y = \<bar>x\<bar>; u = pow2i (binade y - 52) in sgn x * of_int (round_even (y / u)) * u)"

definition py_float_of_int :: "int \<Rightarrow> py_float" where
  "py_float_of_int n = round_binary64 (of_int n)"

definition py_truediv :: "int \<Rightarrow> int \<Rightarrow> py_exception + py_float" where
  "py_truediv a b = (if b = 0 then Inl ZeroDivisionError else Inr (round_binary64 (of_int a / of_int b)))"

definition py_mul :: "py_float \<Rightarrow> py_float \<Rightarrow> py_float" where
  "py_mul x y = round_binary64 (x * y)"

definition py_int :: "py_float \<Rightarrow> int" where
  "py_int x = (if 0 \<le> x then \<lfloor>x\<rfloor> else \<lceil>x\<rceil>)"

section \<open>Strings\<close>

definition py_truthy_str :: "string option \<Rightarrow> bool" where
  "py_truthy_str s = (case s of None \<Rightarrow> False | Some x \<Rightarrow> x \<noteq> [])"

definition digit_char :: "nat \<Rightarrow> char" where
  "digit_char d = char_of (48 + d)"

fun dec_digits :: "nat \<Rightarrow> string" where
  "dec_digits n = (if n < 10 then [digit_char n] else dec_digits (n div 10) @ [digit_char (n mod 10)])"

declare dec_digits.simps [simp del]

definition py_str_int :: "int \<Rightarrow> string" where
  "py_str_int i = (if 0 \<le> i then dec_digits (nat i) else CHR ''-'' # dec_digits (nat (- i)))"

text \<open>The reading direction: a decimal numeral of digits only, as a \<open>nat\<close>.\<close>

definition is_digit_char :: "char \<Rightarrow> bool" where
  "is_digit_char c = ((48::nat) \<le> of_char c \<and> of_char c < (58::nat))"

definition digit_value :: "char \<Rightarrow> nat" where
  "digit_value c = of_char c - (48::nat)"

definition parse_dec :: "string \<Rightarrow> nat option" where
  "parse_dec s = (if s \<noteq> [] \<and> list_all is_digit_char s
                  then Some (foldl (\<lambda>acc c. 10 * acc + digit_value c) 0 s) else None)"

section \<open>Lemmas: decimal numerals read back\<close>

lemma digit_char_props:
  assumes "d < 10"
  shows "is_digit_char (digit_char d)" and "digit_value (digit_char d) = d"
  using assms by (simp_all add: digit_char_def is_digit_char_def digit_value_def)

lemma dec_digits_nonempty: "dec_digits n \<noteq> []"
  by (subst dec_digits.simps) simp

lemma dec_digits_all_digits: "list_all is_digit_char (dec_digits n)"
proof (induction n rule: dec_digits.induct)
  case (1 n)
  then show ?case
    by (subst dec_digits.simps) (simp add: digit_char_props)
qed

lemma dec_digits_value:
  "foldl (\<lambda>acc c. 10 * acc + digit_value c) 0 (dec_digits n) = n"
proof (induction n rule: dec_digits.induct)
  case (1 n)
  show ?case
  proof (cases "n < 10")
    case True
    then show ?thesis by (subst dec_digits.simps) (simp add: digit_char_props)
  next
    case False
    with "1.IH" show ?thesis
      by (subst dec_digits.simps) (simp add: digit_char_props)
  qed
qed

lemma parse_dec_dec_digits [simp]: "parse_dec (dec_digits n) = Some n"
  by (simp add: parse_dec_def dec_digits_nonempty dec_digits_all_digits dec_digits_value)

lemma py_str_int_nonneg: "0 \<le> i \<Longrightarrow> py_str_int i = dec_digits (nat i)"
  by (simp add: py_str_int_def)

end
