(* ===== verification/Sdk.thy ===== *)
theory Sdk
  imports Python_Runtime
begin

text \<open>
  The external collaborators of the transaction pipeline: the Aleo SDK (the Python
  module \<open>aleo\<close>), the node's REST interface reached through it and through
  \<open>requests.post\<close>. None of this is code of the repository. It is the interface the
  pipeline is verified against, so that every theorem about the pipeline holds for
  every behaviour of the SDK and of the node:
  \<^item> artefacts are symbolic: a value records how it was built (an authorization its
    signer, program, function and inputs; an execution its authorization, locator and
    the prover's randomness; an execution id the execution it identifies). Hashing and
    proving are thereby idealised as injective.
  \<^item> \<open>sdk_env\<close> is one run's environment: which calls raise (\<open>raises\<close>, any call,
    depending on its arguments), which program id a source declares, the prover's
    randomness, and the node's HTTP answer to a broadcast.
  \<^item> \<open>network\<close> is the node's persistent state that the pipeline reads or changes:
    the deployed programs, and the log of broadcast requests the node answered.
\<close>

datatype private_key = PrivateKey string

text \<open>An Aleo value, built from its literal, e.g. \<open>''1field''\<close> or \<open>''2u64''\<close>.\<close>

datatype aleo_value = Value string

datatype auth =
    Auth (auth_signer: private_key) (auth_program: string) (auth_function: string)
      (auth_inputs: "aleo_value list")
  | FeeAuth private_key nat exec_id "nat option"
and execution = Execution auth "string \<times> string" nat
and exec_id = ExecId execution

datatype fee = Fee auth nat

datatype transaction = Transaction execution fee

text \<open>The calls of the SDK and of the network that can raise, with their arguments.\<close>

datatype sdk_call =
    PrivateKey_from_string string
  | Query_rest string
  | Process_load
  | Query_get_program string
  | Program_from_string string
  | Process_add_program string
  | Identifier_from_string string
  | Value_from_string string
  | Process_authorize private_key string string "aleo_value list"
  | Process_execute auth
  | Trace_prepare auth
  | Trace_prove_execution auth "string \<times> string"
  | Execution_execution_id execution
  | Process_verify_execution execution
  | Process_authorize_fee_public private_key nat exec_id "nat option"
  | Trace_prove_fee auth
  | Process_verify_fee fee exec_id
  | Transaction_from_execution execution fee
  | Transaction_to_json transaction
  | Requests_post string transaction

datatype sdk_error = Raised sdk_call

record sdk_env =
  raises :: "sdk_call \<Rightarrow> bool"
  program_id_of :: "string \<Rightarrow> string"
  prover_nonce :: "auth \<Rightarrow> nat"
  post_response :: "string \<Rightarrow> transaction \<Rightarrow> (nat \<times> string) option"

record network =
  programs :: "string \<rightharpoonup> string"
  posts :: "(string \<times> transaction \<times> nat) list"

section \<open>Calls\<close>

text \<open>A call that returns \<open>r\<close> unless the environment makes it raise.\<close>

definition sdk :: "sdk_env \<Rightarrow> sdk_call \<Rightarrow> 'a \<Rightarrow> sdk_error + 'a" where
  "sdk env c r = (if raises env c then Inl (Raised c) else Inr r)"

text \<open>\<open>query.get_program(pid)\<close> raises when the node has no such program.\<close>

definition get_program :: "sdk_env \<Rightarrow> network \<Rightarrow> string \<Rightarrow> sdk_error + string" where
  "get_program env net pid =
     (case programs net pid of
        None \<Rightarrow> Inl (Raised (Query_get_program pid))
      | Some src \<Rightarrow> sdk env (Query_get_program pid) src)"

text \<open>A call fails in a run when it raises, or, for a program fetch, when the program is
  missing on the node.\<close>

definition call_fails :: "sdk_env \<Rightarrow> network \<Rightarrow> sdk_call \<Rightarrow> bool" where
  "call_fails env net c = (raises env c \<or> (case c of Query_get_program pid \<Rightarrow> programs net pid = None | _ \<Rightarrow> False))"

section \<open>Aleo literals\<close>

text \<open>
  The SDK reads an unsigned 64-bit literal \<open>''<digits>u64''\<close> as a \<open>64 word\<close>, and
  refuses a numeral out of range. This is the reading side of the literal the pipeline
  writes, used to show that the literal denotes the winning option.
\<close>

definition parse_u64_literal :: "string \<Rightarrow> 64 word option" where
  "parse_u64_literal s =
     (if length s > 3 \<and> drop (length s - 3) s = ''u64''
      then (case parse_dec (take (length s - 3) s) of
              Some n \<Rightarrow> if n < 2 ^ 64 then Some (word_of_nat n) else None
            | None \<Rightarrow> None)
      else None)"

text \<open>The call a transaction requests: the authorization of its execution.\<close>

fun tx_request :: "transaction \<Rightarrow> auth" where
  "tx_request (Transaction (Execution a _ _) _) = a"

section \<open>Lemmas on calls\<close>

lemma bind_sum_sdk [sdk_simps]:
  "bind_sum (sdk env c r) f = (if raises env c then Inl (Raised c) else f r)"
  by (simp add: sdk_def)

lemma bind_sum_get_program [sdk_simps]:
  "bind_sum (get_program env net pid) f =
   (if call_fails env net (Query_get_program pid) then Inl (Raised (Query_get_program pid))
    else f (the (programs net pid)))"
  by (auto simp: get_program_def call_fails_def sdk_def split: option.splits)

lemma call_fails_raises [sdk_simps]:
  "(\<And>pid. c \<noteq> Query_get_program pid) \<Longrightarrow> call_fails env net c = raises env c"
  by (cases c) (auto simp: call_fails_def)

end
