(* ===== verification/Pipeline.thy ===== *)
theory Pipeline
  imports Sdk
begin

text \<open>
  The transaction pipeline, \<open>resolve_market\<close> of \<open>src/Oracle/worker.py\<close>
  (lines 48--126), and the configuration it reads (lines 9--12). The body of the
  \<open>try\<close> block is split along the code's numbered comments:
  \<open>load_program\<close> (1./2., lines 58--69), \<open>authorize_resolution\<close> (3., lines 71--83),
  \<open>execute_and_prove\<close> (4., lines 85--92), \<open>prove_fee\<close> (5., lines 94--104), the
  assembly (6., line 107, in \<open>build_transaction\<close>) and \<open>broadcast\<close> (lines 110--122).
  Each SDK call is \<open>sdk env c r\<close>: it returns \<open>r\<close> or raises; a raise skips the rest
  of the block and is caught by the \<open>except\<close> of line 124, which returns \<open>False\<close>.

  The abstract side: \<open>resolution_calls\<close> lists the calls the code makes, in program
  order, and \<open>planned_transaction\<close> is the transaction they build when none fails.
\<close>

record config =
  ORACLE_PRIVATE_KEY :: "string option"
  ALEO_NODE_URL :: "string option"

definition load_config :: "(string \<Rightarrow> string option) \<Rightarrow> config" where
  "load_config getenv =
     \<lparr>ORACLE_PRIVATE_KEY = getenv ''ORACLE_PRIVATE_KEY'', ALEO_NODE_URL = getenv ''ALEO_NODE_URL''\<rparr>"

definition program_id :: string where
  "program_id = ''prediction.aleo''"

definition fee_cost :: nat where
  "fee_cost = 100000"

text \<open>The second input, \<open>f"{winning_option}u64"\<close>.\<close>

definition u64_arg :: "int \<Rightarrow> string" where
  "u64_arg winning_option = py_str_int winning_option @ ''u64''"

definition broadcast_url :: "string \<Rightarrow> string" where
  "broadcast_url node_url = node_url @ ''/testnet3/transaction/broadcast''"

section \<open>The stages\<close>

definition load_program ::
  "sdk_env \<Rightarrow> network \<Rightarrow> string \<Rightarrow> string \<Rightarrow> sdk_error + private_key \<times> string" where
  "load_program env net key node_url =
     bind_sum (sdk env (PrivateKey_from_string key) (PrivateKey key)) (\<lambda>private_key.
     bind_sum (sdk env (Query_rest node_url) ()) (\<lambda>_.
     bind_sum (sdk env Process_load ()) (\<lambda>_.
     bind_sum (get_program env net program_id) (\<lambda>program_source.
     bind_sum (sdk env (Program_from_string program_source) (program_id_of env program_source))
       (\<lambda>pid.
     bind_sum (sdk env (Process_add_program pid) ()) (\<lambda>_.
     Inr (private_key, pid)))))))"

definition authorize_resolution ::
  "sdk_env \<Rightarrow> private_key \<Rightarrow> string \<Rightarrow> market_key \<Rightarrow> int \<Rightarrow> sdk_error + string \<times> auth" where
  "authorize_resolution env private_key pid market_id winning_option =
     bind_sum (sdk env (Identifier_from_string ''resolve_pool'') ''resolve_pool'') (\<lambda>function_name.
     bind_sum (sdk env (Value_from_string market_id) (Value market_id)) (\<lambda>v1.
     bind_sum (sdk env (Value_from_string (u64_arg winning_option)) (Value (u64_arg winning_option)))
       (\<lambda>v2.
     sdk env (Process_authorize private_key pid function_name [v1, v2])
       (function_name, Auth private_key pid function_name [v1, v2]))))"

definition execute_and_prove ::
  "sdk_env \<Rightarrow> string \<Rightarrow> string \<Rightarrow> auth \<Rightarrow> sdk_error + execution \<times> exec_id" where
  "execute_and_prove env pid function_name auth =
     bind_sum (sdk env (Process_execute auth) ()) (\<lambda>_.
     bind_sum (sdk env (Trace_prepare auth) ()) (\<lambda>_.
     bind_sum (sdk env (Trace_prove_execution auth (pid, function_name))
                 (Execution auth (pid, function_name) (prover_nonce env auth))) (\<lambda>execution.
     bind_sum (sdk env (Execution_execution_id execution) (ExecId execution)) (\<lambda>execution_id.
     bind_sum (sdk env (Process_verify_execution execution) ()) (\<lambda>_.
     Inr (execution, execution_id))))))"

definition prove_fee :: "sdk_env \<Rightarrow> private_key \<Rightarrow> exec_id \<Rightarrow> sdk_error + fee" where
  "prove_fee env private_key execution_id =
     bind_sum (sdk env (Process_authorize_fee_public private_key fee_cost execution_id None)
                 (FeeAuth private_key fee_cost execution_id None)) (\<lambda>fee_auth.
     bind_sum (sdk env (Process_execute fee_auth) ()) (\<lambda>_.
     bind_sum (sdk env (Trace_prepare fee_auth) ()) (\<lambda>_.
     bind_sum (sdk env (Trace_prove_fee fee_auth) (Fee fee_auth (prover_nonce env fee_auth))) (\<lambda>fee.
     bind_sum (sdk env (Process_verify_fee fee execution_id) ()) (\<lambda>_.
     Inr fee)))))"

definition build_transaction ::
  "sdk_env \<Rightarrow> network \<Rightarrow> string \<Rightarrow> string \<Rightarrow> market_key \<Rightarrow> int \<Rightarrow> sdk_error + transaction" where
  "build_transaction env net key node_url market_id winning_option =
     bind_sum (load_program env net key node_url) (\<lambda>(private_key, pid).
     bind_sum (authorize_resolution env private_key pid market_id winning_option)
       (\<lambda>(function_name, auth).
     bind_sum (execute_and_prove env pid function_name auth) (\<lambda>(execution, execution_id).
     bind_sum (prove_fee env private_key execution_id) (\<lambda>fee.
     sdk env (Transaction_from_execution execution fee) (Transaction execution fee)))))"

text \<open>\<open>requests.post\<close> either raises (no answer, \<open>None\<close>) or the node answers with a
  status; an answered request is logged in the network state.\<close>

definition broadcast ::
  "sdk_env \<Rightarrow> string \<Rightarrow> transaction \<Rightarrow> network \<Rightarrow> (sdk_error + bool) \<times> network" where
  "broadcast env node_url transaction net =
     (case sdk env (Transaction_to_json transaction) () of
        Inl e \<Rightarrow> (Inl e, net)
      | Inr _ \<Rightarrow>
          (case post_response env (broadcast_url node_url) transaction of
             None \<Rightarrow> (Inl (Raised (Requests_post (broadcast_url node_url) transaction)), net)
           | Some (status_code, text) \<Rightarrow>
               (Inr (status_code = 200),
                net\<lparr>posts := posts net @ [(broadcast_url node_url, transaction, status_code)]\<rparr>)))"

definition resolve_market ::
  "config \<Rightarrow> sdk_env \<Rightarrow> market_key \<Rightarrow> int \<Rightarrow> network \<Rightarrow> bool \<times> network" where
  "resolve_market cfg env market_id winning_option net =
     (if \<not> py_truthy_str (ORACLE_PRIVATE_KEY cfg) \<or> \<not> py_truthy_str (ALEO_NODE_URL cfg)
      then (False, net)
      else
        let key = the (ORACLE_PRIVATE_KEY cfg); node_url = the (ALEO_NODE_URL cfg) in
        (case build_transaction env net key node_url market_id winning_option of
           Inl _ \<Rightarrow> (False, net)
         | Inr transaction \<Rightarrow>
             (case broadcast env node_url transaction net of
                (Inl _, net') \<Rightarrow> (False, net')
              | (Inr ok, net') \<Rightarrow> (ok, net'))))"

declare load_program_def [pipeline_defs] authorize_resolution_def [pipeline_defs]
  execute_and_prove_def [pipeline_defs] prove_fee_def [pipeline_defs]
  build_transaction_def [pipeline_defs]

section \<open>The abstract pipeline: the calls in program order\<close>

definition planned_auth :: "sdk_env \<Rightarrow> network \<Rightarrow> string \<Rightarrow> market_key \<Rightarrow> int \<Rightarrow> auth" where
  "planned_auth env net key market_id opt =
     Auth (PrivateKey key) (program_id_of env (the (programs net program_id))) ''resolve_pool''
       [Value market_id, Value (u64_arg opt)]"

definition planned_execution :: "sdk_env \<Rightarrow> network \<Rightarrow> string \<Rightarrow> market_key \<Rightarrow> int \<Rightarrow> execution" where
  "planned_execution env net key market_id opt =
     (let a = planned_auth env net key market_id opt in
      Execution a (auth_program a, ''resolve_pool'') (prover_nonce env a))"

definition planned_fee_auth :: "sdk_env \<Rightarrow> network \<Rightarrow> string \<Rightarrow> market_key \<Rightarrow> int \<Rightarrow> auth" where
  "planned_fee_auth env net key market_id opt =
     FeeAuth (PrivateKey key) fee_cost (ExecId (planned_execution env net key market_id opt)) None"

definition planned_transaction ::
  "sdk_env \<Rightarrow> network \<Rightarrow> string \<Rightarrow> market_key \<Rightarrow> int \<Rightarrow> transaction" where
  "planned_transaction env net key market_id opt =
     (let fa = planned_fee_auth env net key market_id opt in
      Transaction (planned_execution env net key market_id opt) (Fee fa (prover_nonce env fa)))"

definition resolution_calls ::
  "sdk_env \<Rightarrow> network \<Rightarrow> string \<Rightarrow> string \<Rightarrow> market_key \<Rightarrow> int \<Rightarrow> sdk_call list" where
  "resolution_calls env net key node_url market_id opt =
     (let src = the (programs net program_id);
          pid = program_id_of env src;
          a = planned_auth env net key market_id opt;
          exe = planned_execution env net key market_id opt;
          fa = planned_fee_auth env net key market_id opt;
          fee = Fee fa (prover_nonce env fa)
      in [PrivateKey_from_string key, Query_rest node_url, Process_load,
          Query_get_program program_id, Program_from_string src, Process_add_program pid,
          Identifier_from_string ''resolve_pool'', Value_from_string market_id,
          Value_from_string (u64_arg opt), Process_authorize (PrivateKey key) pid ''resolve_pool''
            [Value market_id, Value (u64_arg opt)],
          Process_execute a, Trace_prepare a, Trace_prove_execution a (pid, ''resolve_pool''),
          Execution_execution_id exe, Process_verify_execution exe,
          Process_authorize_fee_public (PrivateKey key) fee_cost (ExecId exe) None,
          Process_execute fa, Trace_prepare fa, Trace_prove_fee fa,
          Process_verify_fee fee (ExecId exe), Transaction_from_execution exe fee])"

section \<open>Example environments\<close>

text \<open>A node that serves the program and accepts every broadcast, and one run in which
  every call succeeds; the prover's randomness is \<open>seed\<close>. They instantiate the
  theorems below at concrete inputs.\<close>

definition demo_net :: network where
  "demo_net = \<lparr>programs = [program_id \<mapsto> ''program prediction.aleo;''], posts = []\<rparr>"

definition demo_env :: "nat \<Rightarrow> sdk_env" where
  "demo_env seed = \<lparr>raises = (\<lambda>_. False), program_id_of = (\<lambda>_. program_id),
     prover_nonce = (\<lambda>_. seed), post_response = (\<lambda>_ _. Some (200, ''at1tx''))\<rparr>"

definition demo_cfg :: config where
  "demo_cfg = \<lparr>ORACLE_PRIVATE_KEY = Some ''APrivateKey1'', ALEO_NODE_URL = Some ''http://node''\<rparr>"

section \<open>The code runs the calls in order and stops at the first failure\<close>

lemma build_transaction_eq:
  "build_transaction env net key node_url market_id opt =
     (case find (call_fails env net) (resolution_calls env net key node_url market_id opt) of
        Some c \<Rightarrow> Inl (Raised c)
      | None \<Rightarrow> Inr (planned_transaction env net key market_id opt))"
  by (simp add: pipeline_defs sdk_simps sdk_def case_option_if_distrib resolution_calls_def
      planned_transaction_def planned_fee_auth_def planned_execution_def planned_auth_def
      Let_def cong: if_cong split del: if_split)

lemma resolve_market_eq:
  "resolve_market cfg env market_id opt net =
     (case (ORACLE_PRIVATE_KEY cfg, ALEO_NODE_URL cfg) of
        (Some key, Some node_url) \<Rightarrow>
          if key = [] \<or> node_url = [] then (False, net)
          else (case find (call_fails env net) (resolution_calls env net key node_url market_id opt) of
                  Some _ \<Rightarrow> (False, net)
                | None \<Rightarrow>
                    (let tx = planned_transaction env net key market_id opt in
                     if raises env (Transaction_to_json tx) then (False, net)
                     else case post_response env (broadcast_url node_url) tx of
                       None \<Rightarrow> (False, net)
                     | Some (status_code, _) \<Rightarrow>
                         (status_code = 200,
                          net\<lparr>posts := posts net @ [(broadcast_url node_url, tx, status_code)]\<rparr>)))
      | _ \<Rightarrow> (False, net))"
  by (auto simp: resolve_market_def build_transaction_eq broadcast_def sdk_def py_truthy_str_def
      Let_def split: option.splits sum.splits prod.splits)

lemma planned_transaction_shape:
  "planned_transaction env net key market_id opt = Transaction exe fee \<longleftrightarrow>
     exe = planned_execution env net key market_id opt \<and>
     fee = Fee (planned_fee_auth env net key market_id opt)
             (prover_nonce env (planned_fee_auth env net key market_id opt))"
  by (auto simp: planned_transaction_def Let_def)

text \<open>C1: the straight-line \<open>try\<close> block of \<open>resolve_market\<close> up to the assembly of the
  transaction is the abstract pipeline: it fails with the first call of
  \<open>resolution_calls\<close>, in program order, that fails, and otherwise returns the planned
  transaction.\<close>

theorem build_transaction_first_failure:
  "build_transaction env net key node_url market_id opt =
     (case find (call_fails env net) (resolution_calls env net key node_url market_id opt) of
        Some c \<Rightarrow> Inl (Raised c)
      | None \<Rightarrow> Inr (planned_transaction env net key market_id opt))"
  by (rule build_transaction_eq)

text \<open>C2: \<open>resolve_market\<close> returns \<open>True\<close> exactly when both settings are non-empty
  strings, none of the 21 calls of the pipeline fails (the two verification gates
  included), the transaction serialises, and the node answers the broadcast with status
  200.\<close>

theorem resolve_market_true_iff:
  "fst (resolve_market cfg env market_id opt net) \<longleftrightarrow>
     (\<exists>key node_url body. ORACLE_PRIVATE_KEY cfg = Some key \<and> key \<noteq> [] \<and>
        ALEO_NODE_URL cfg = Some node_url \<and> node_url \<noteq> [] \<and>
        (\<forall>c \<in> set (resolution_calls env net key node_url market_id opt). \<not> call_fails env net c) \<and>
        \<not> raises env (Transaction_to_json (planned_transaction env net key market_id opt)) \<and>
        post_response env (broadcast_url node_url) (planned_transaction env net key market_id opt)
          = Some (200, body))"
  by (auto simp: resolve_market_eq find_None_all Let_def dest: find_Some_mem
      split: option.splits prod.splits if_splits)

theorem resolve_market_true_iff_witness:
  "fst (resolve_market demo_cfg (demo_env 7) ''1field'' 2 demo_net)"
proof -
  have ok: "\<forall>c \<in> set (resolution_calls (demo_env 7) demo_net ''APrivateKey1'' ''http://node'' ''1field'' 2).
      \<not> call_fails (demo_env 7) demo_net c"
    by (simp add: resolution_calls_def call_fails_def demo_env_def demo_net_def Let_def)
  then show ?thesis
    by (simp add: resolve_market_true_iff demo_cfg_def demo_env_def)
qed

text \<open>C3: a call of \<open>resolve_market\<close> changes the network by at most one broadcast, and
  only after every call of the pipeline succeeded, the verification of the execution
  and of the fee included; the broadcast carries the planned transaction.\<close>

theorem resolve_market_network_effect:
  "snd (resolve_market cfg env market_id opt net) = net \<or>
   (\<exists>key node_url status_code. ORACLE_PRIVATE_KEY cfg = Some key \<and> ALEO_NODE_URL cfg = Some node_url \<and>
      (\<forall>c \<in> set (resolution_calls env net key node_url market_id opt). \<not> call_fails env net c) \<and>
      snd (resolve_market cfg env market_id opt net) =
        net\<lparr>posts := posts net @
              [(broadcast_url node_url, planned_transaction env net key market_id opt, status_code)]\<rparr>)"
  by (auto simp: resolve_market_eq find_None_all Let_def split: option.splits prod.splits)

theorem resolve_market_network_effect_witness:
  "snd (resolve_market demo_cfg (demo_env 7) ''1field'' 2 demo_net) \<noteq> demo_net \<and>
   (\<exists>status_code. snd (resolve_market demo_cfg (demo_env 7) ''1field'' 2 demo_net) =
     demo_net\<lparr>posts := [(broadcast_url ''http://node'',
        planned_transaction (demo_env 7) demo_net ''APrivateKey1'' ''1field'' 2, status_code)]\<rparr>)"
proof -
  have "snd (resolve_market demo_cfg (demo_env 7) ''1field'' 2 demo_net) = demo_net \<or>
   (\<exists>key node_url status_code. ORACLE_PRIVATE_KEY demo_cfg = Some key \<and> ALEO_NODE_URL demo_cfg = Some node_url \<and>
      (\<forall>c \<in> set (resolution_calls (demo_env 7) demo_net key node_url ''1field'' 2).
         \<not> call_fails (demo_env 7) demo_net c) \<and>
      snd (resolve_market demo_cfg (demo_env 7) ''1field'' 2 demo_net) =
        demo_net\<lparr>posts := posts demo_net @
          [(broadcast_url node_url, planned_transaction (demo_env 7) demo_net key ''1field'' 2, status_code)]\<rparr>)"
    by (rule resolve_market_network_effect)
  moreover have "snd (resolve_market demo_cfg (demo_env 7) ''1field'' 2 demo_net) \<noteq> demo_net"
    by (simp add: resolve_market_eq demo_cfg_def resolution_calls_def call_fails_def demo_env_def
        demo_net_def Let_def)
  ultimately show ?thesis by (auto simp: demo_cfg_def demo_net_def)
qed

text \<open>C4: when a stage before the broadcast fails (program fetch, authorization, proof,
  self-verification, fee proof or fee self-verification), \<open>resolve_market\<close> returns
  \<open>False\<close> and leaves the network as it was.\<close>

theorem resolve_market_stage_failure:
  assumes "ORACLE_PRIVATE_KEY cfg = Some key" and "ALEO_NODE_URL cfg = Some node_url"
    and "find (call_fails env net) (resolution_calls env net key node_url market_id opt) = Some c"
  shows "resolve_market cfg env market_id opt net = (False, net)"
  using assms by (simp add: resolve_market_eq)

theorem resolve_market_stage_failure_witness:
  "resolve_market demo_cfg ((demo_env 7)\<lparr>raises := (\<lambda>c. case c of Process_verify_execution _ \<Rightarrow> True | _ \<Rightarrow> False)\<rparr>)
     ''1field'' 2 demo_net = (False, demo_net)"
proof -
  let ?env = "(demo_env 7)\<lparr>raises := (\<lambda>c. case c of Process_verify_execution _ \<Rightarrow> True | _ \<Rightarrow> False)\<rparr>"
  have "find (call_fails ?env demo_net) (resolution_calls ?env demo_net ''APrivateKey1'' ''http://node'' ''1field'' 2)
      = Some (Process_verify_execution (planned_execution ?env demo_net ''APrivateKey1'' ''1field'' 2))"
    by (simp add: resolution_calls_def call_fails_def demo_env_def demo_net_def Let_def)
  from resolve_market_stage_failure [of demo_cfg "''APrivateKey1''" "''http://node''", OF _ _ this]
  show ?thesis by (simp add: demo_cfg_def)
qed

text \<open>C5: with the private key or the node URL unset or empty, \<open>resolve_market\<close>
  returns \<open>False\<close> and makes no call at all: the network is unchanged.\<close>

theorem resolve_market_missing_credentials:
  "\<not> py_truthy_str (ORACLE_PRIVATE_KEY cfg) \<or> \<not> py_truthy_str (ALEO_NODE_URL cfg) \<Longrightarrow>
   resolve_market cfg env market_id opt net = (False, net)"
  by (simp add: resolve_market_def)

theorem resolve_market_missing_credentials_witness:
  "resolve_market (demo_cfg\<lparr>ORACLE_PRIVATE_KEY := Some []\<rparr>) (demo_env 7) ''1field'' 1 demo_net =
     (False, demo_net)"
  by (rule resolve_market_missing_credentials) (simp add: py_truthy_str_def)

text \<open>C6: a successful resolution broadcast exactly one transaction, accepted with status
  200: its execution proves the call \<open>resolve_pool(market_id, "<option>u64")\<close> signed
  with the oracle's key, and its fee is authorized by the same key for the base fee of
  100000 microcredits and bound to the id of that very execution.\<close>

theorem resolve_market_success_tx:
  assumes "resolve_market cfg env market_id opt net = (True, net')"
  shows "\<exists>key node_url pid n m exe. ORACLE_PRIVATE_KEY cfg = Some key \<and>
     exe = Execution (Auth (PrivateKey key) pid ''resolve_pool'' [Value market_id, Value (u64_arg opt)])
             (pid, ''resolve_pool'') n \<and>
     net' = net\<lparr>posts := posts net @ [(broadcast_url node_url,
              Transaction exe (Fee (FeeAuth (PrivateKey key) fee_cost (ExecId exe) None) m), 200)]\<rparr>"
  using assms
  by (auto simp: resolve_market_eq planned_transaction_def planned_fee_auth_def planned_execution_def
      planned_auth_def Let_def split: option.splits prod.splits if_splits)

theorem resolve_market_success_tx_witness:
  "\<exists>net'. resolve_market demo_cfg (demo_env 7) ''1field'' 2 demo_net = (True, net') \<and>
     (\<exists>key node_url pid n m exe. ORACLE_PRIVATE_KEY demo_cfg = Some key \<and>
       exe = Execution (Auth (PrivateKey key) pid ''resolve_pool'' [Value ''1field'', Value (u64_arg 2)])
               (pid, ''resolve_pool'') n \<and>
       net' = demo_net\<lparr>posts := posts demo_net @ [(broadcast_url node_url,
                Transaction exe (Fee (FeeAuth (PrivateKey key) fee_cost (ExecId exe) None) m), 200)]\<rparr>)"
proof -
  have ok: "fst (resolve_market demo_cfg (demo_env 7) ''1field'' 2 demo_net)"
    by (simp add: resolve_market_eq demo_cfg_def resolution_calls_def call_fails_def demo_env_def
        demo_net_def Let_def)
  obtain net' where eq: "resolve_market demo_cfg (demo_env 7) ''1field'' 2 demo_net = (True, net')"
    using ok by (cases "resolve_market demo_cfg (demo_env 7) ''1field'' 2 demo_net") auto
  show ?thesis using eq resolve_market_success_tx [OF eq] by blast
qed

text \<open>C9: the literal the pipeline writes for the option, \<open>f"{winning_option}u64"\<close>,
  reads back as that number in the 64-bit unsigned type, for every option in range.\<close>

theorem u64_arg_roundtrip:
  assumes "0 \<le> n" and "n < 2 ^ 64"
  shows "parse_u64_literal (u64_arg n) = Some (word_of_int n)"
proof -
  have arg: "u64_arg n = dec_digits (nat n) @ ''u64''"
    using assms(1) by (simp add: u64_arg_def py_str_int_def)
  have "nat n < 2 ^ 64" using assms by (simp add: nat_less_iff)
  moreover have "word_of_nat (nat n) = (word_of_int n :: 64 word)"
    using assms(1) by (simp add: of_nat_nat)
  ultimately show ?thesis
    using dec_digits_nonempty [of "nat n"]
    by (simp add: arg parse_u64_literal_def)
qed

theorem u64_arg_roundtrip_witness:
  "(0::int) \<le> 2 \<and> (2::int) < 2 ^ 64 \<and> parse_u64_literal (u64_arg 2) = Some 2"
  using u64_arg_roundtrip [of 2] by simp

lemma u64_arg_options: "u64_arg 1 = ''1u64''" "u64_arg 2 = ''2u64''"
  by code_simp+

lemma resolution_calls_no_failure:
  "(\<forall>c. \<not> raises env c) \<Longrightarrow> programs net program_id \<noteq> None \<Longrightarrow>
   find (call_fails env net) (resolution_calls env net key node_url market_id opt) = None"
  by (simp add: resolution_calls_def call_fails_def Let_def)

lemma resolve_market_all_succeed:
  assumes "ORACLE_PRIVATE_KEY cfg = Some key" "key \<noteq> []" "ALEO_NODE_URL cfg = Some node_url" "node_url \<noteq> []"
    and "\<forall>c. \<not> raises env c" and "programs net program_id \<noteq> None"
    and "post_response env (broadcast_url node_url) (planned_transaction env net key market_id opt) = Some (st, body)"
  shows "resolve_market cfg env market_id opt net =
     (st = 200, net\<lparr>posts := posts net @
        [(broadcast_url node_url, planned_transaction env net key market_id opt, st)]\<rparr>)"
  using assms by (simp add: resolve_market_eq resolution_calls_no_failure)

lemma tx_request_planned:
  "tx_request (planned_transaction env net key market_id opt) = planned_auth env net key market_id opt"
  by (simp add: planned_transaction_def planned_execution_def Let_def)

text \<open>C7: the pipeline fetches the source served under \<open>''prediction.aleo''\<close> but
  authorizes the call against the id that source declares (\<open>program.id()\<close>, line 83),
  and never compares the two: whatever id the source declares, a run in which no call
  raises and the node accepts reports success and broadcasts a call of that program.\<close>

theorem resolve_market_declared_program:
  assumes "ORACLE_PRIVATE_KEY cfg = Some key" "key \<noteq> []" "ALEO_NODE_URL cfg = Some node_url"
    "node_url \<noteq> []" and "\<forall>c. \<not> raises env c" and "programs net program_id = Some src"
    and "\<forall>tx. post_response env (broadcast_url node_url) tx = Some (200, body)"
  shows "\<exists>tx. resolve_market cfg env market_id opt net =
      (True, net\<lparr>posts := posts net @ [(broadcast_url node_url, tx, 200)]\<rparr>) \<and>
    tx_request tx = Auth (PrivateKey key) (program_id_of env src) ''resolve_pool''
      [Value market_id, Value (u64_arg opt)]"
proof -
  have "resolve_market cfg env market_id opt net =
      (True, net\<lparr>posts := posts net @
         [(broadcast_url node_url, planned_transaction env net key market_id opt, 200)]\<rparr>)"
    using assms by (simp add: resolve_market_all_succeed)
  moreover have "tx_request (planned_transaction env net key market_id opt) =
      Auth (PrivateKey key) (program_id_of env src) ''resolve_pool'' [Value market_id, Value (u64_arg opt)]"
    using assms(6) by (simp add: tx_request_planned planned_auth_def)
  ultimately show ?thesis by blast
qed

theorem resolve_market_declared_program_witness:
  "\<exists>tx. resolve_market demo_cfg ((demo_env 7)\<lparr>program_id_of := (\<lambda>_. ''other.aleo'')\<rparr>) ''1field'' 2 demo_net =
      (True, demo_net\<lparr>posts := posts demo_net @ [(broadcast_url ''http://node'', tx, 200)]\<rparr>) \<and>
    tx_request tx = Auth (PrivateKey ''APrivateKey1'') ''other.aleo'' ''resolve_pool''
      [Value ''1field'', Value (u64_arg 2)]"
  using resolve_market_declared_program [of demo_cfg "''APrivateKey1''" "''http://node''"
      "(demo_env 7)\<lparr>program_id_of := (\<lambda>_. ''other.aleo'')\<rparr>" demo_net "''program prediction.aleo;''"
      "''at1tx''" "''1field''" 2]
  by (simp add: demo_cfg_def demo_env_def demo_net_def)

end
