(* ===== verification/Outcome.thy ===== *)
theory Outcome
  imports Python_Runtime
begin

text \<open>
  The outcome source and the outcome decision of \<open>src/Oracle/worker.py\<close>:
  \<open>fetch_eth_staking_data\<close> (lines 15--45), the snapshot of the ETH staking rate, and
  the decision of \<open>main\<close> (line 144), \<open>1\<close> (YES) when the reading reaches the
  threshold and \<open>2\<close> (NO) otherwise. Floats follow \<^theory_text>\<open>Python_Runtime\<close>: the
  snapshot is computed with binary64 rounding, as CPython computes it.
\<close>

definition total_staked :: int where
  "total_staked = 34500000"

definition total_supply :: int where
  "total_supply = 120000000"

text \<open>The \<open>try\<close> block: \<open>(total_staked / total_supply) * 100\<close>; an exception
  (here only a zero divisor could raise) is caught and gives \<open>None\<close>.\<close>

definition fetch_eth_staking_data :: "py_float option" where
  "fetch_eth_staking_data =
     (case py_truediv total_staked total_supply of
        Inl _ \<Rightarrow> None
      | Inr q \<Rightarrow> Some (py_mul q (py_float_of_int 100)))"

definition winning_option :: "py_float \<Rightarrow> py_float \<Rightarrow> int" where
  "winning_option value threshold = (if value \<ge> threshold then 1 else 2)"

section \<open>The decision\<close>

lemma winning_option_range: "winning_option v t \<in> {1, 2}"
  by (simp add: winning_option_def)

lemma winning_option_nonneg: "0 \<le> winning_option v t"
  by (simp add: winning_option_def)

text \<open>C8: the decision is YES exactly when the reading is at least the threshold; a tie
  is YES, and every other reading is NO.\<close>

theorem winning_option_yes_iff:
  "(winning_option v t = 1 \<longleftrightarrow> t \<le> v) \<and> (winning_option v t = 2 \<longleftrightarrow> v < t)"
  by (auto simp: winning_option_def)

section \<open>The snapshot value\<close>

text \<open>The snapshot is the binary64 number nearest to \<open>fl(34500000 / 120000000) * 100\<close>,
  which is \<open>28.75 - 2^-48\<close> (\<open>28.749999999999996\<close>), as CPython computes it.\<close>

lemma fetch_eth_staking_data_eq:
  "fetch_eth_staking_data = Some (2875 / 100 - 1 / 2 ^ 48)"
  by code_simp

end
