(* ===== verification/Store.thy ===== *)
theory Store
  imports Prelude
begin

text \<open>
  The Market Store, the module \<open>db\<close> that \<open>src/Oracle/worker.py\<close> imports. Its code is
  not under \<open>src/\<close>; it is modelled from the spec's contract (sections 3 and 6):
  a table of markets with their terms and a status, \<open>get_pending_markets\<close> listing the
  pending ones as tuples \<open>(market_id, deadline, threshold, metric_type)\<close> in table order,
  and \<open>mark_resolved\<close> setting the status of a market. \<open>init_db\<close> creates the table
  if needed and keeps the rows it holds. The table is a list of rows, since the loop
  visits the markets in the store's order. \<open>only_resolved\<close> is the frame of the loop's
  changes: a row either stays or is marked resolved.
\<close>

datatype metric_type = EthStakingRate

datatype market_status = Pending | Resolved

record market =
  market_id :: market_key
  deadline :: int
  threshold :: py_float
  metric_type :: metric_type
  status :: market_status

type_synonym pending_row = "market_key \<times> int \<times> py_float \<times> metric_type"

definition init_db :: "market list \<Rightarrow> market list" where
  "init_db s = s"

definition get_pending_markets :: "market list \<Rightarrow> pending_row list" where
  "get_pending_markets s =
     map (\<lambda>m. (market_id m, deadline m, threshold m, metric_type m)) (filter (\<lambda>m. status m = Pending) s)"

definition mark_resolved :: "market_key \<Rightarrow> market list \<Rightarrow> market list" where
  "mark_resolved mid s = map (\<lambda>m. if market_id m = mid then m\<lparr>status := Resolved\<rparr> else m) s"

definition pending_ids :: "market list \<Rightarrow> market_key set" where
  "pending_ids s = set (map market_id (filter (\<lambda>m. status m = Pending) s))"

definition resolved_ids :: "market list \<Rightarrow> market_key set" where
  "resolved_ids s = set (map market_id (filter (\<lambda>m. status m = Resolved) s))"

definition store_wf :: "market list \<Rightarrow> bool" where
  "store_wf s = distinct (map market_id s)"

text \<open>How the loop may change the store: row by row, a market stays as it is or is
  marked resolved; nothing else of a row changes.\<close>

definition only_resolved :: "market list \<Rightarrow> market list \<Rightarrow> bool" where
  "only_resolved s s' = list_all2 (\<lambda>m m'. m' = m \<or> m' = m\<lparr>status := Resolved\<rparr>) s s'"

section \<open>Lemmas\<close>

lemma market_status_cases: "status m \<noteq> Pending \<longleftrightarrow> status m = Resolved"
  by (cases "status m") simp_all

lemma ids_mark_resolved [store_simps]: "map market_id (mark_resolved mid s) = map market_id s"
  by (induction s) (simp_all add: mark_resolved_def)

lemma store_wf_mark_resolved [store_simps]: "store_wf (mark_resolved mid s) = store_wf s"
  by (simp add: store_wf_def ids_mark_resolved)

lemma pending_ids_mark_resolved [store_simps]:
  "pending_ids (mark_resolved mid s) = pending_ids s - {mid}"
  by (induction s) (auto simp: pending_ids_def mark_resolved_def)

lemma resolved_ids_mark_resolved [store_simps]:
  "mid \<in> set (map market_id s) \<Longrightarrow> resolved_ids (mark_resolved mid s) = insert mid (resolved_ids s)"
  by (induction s) (auto simp: resolved_ids_def mark_resolved_def)

lemma ids_pending_or_resolved: "set (map market_id s) = pending_ids s \<union> resolved_ids s"
  by (induction s) (auto simp: pending_ids_def resolved_ids_def market_status_cases)

lemma pending_resolved_disjoint:
  assumes "store_wf s" and "mid \<in> pending_ids s"
  shows "mid \<notin> resolved_ids s"
proof
  assume "mid \<in> resolved_ids s"
  then obtain m' where m': "m' \<in> set s" "market_id m' = mid" "status m' = Resolved"
    by (auto simp: resolved_ids_def)
  from assms(2) obtain m where m: "m \<in> set s" "market_id m = mid" "status m = Pending"
    by (auto simp: pending_ids_def)
  from assms(1) have "inj_on market_id (set s)"
    by (simp add: store_wf_def distinct_map)
  with m m' have "m = m'" by (metis inj_onD)
  with m m' show False by simp
qed

lemma get_pending_keys [store_simps]: "map fst (get_pending_markets s) = map market_id (filter (\<lambda>m. status m = Pending) s)"
  by (simp add: get_pending_markets_def)

lemma get_pending_distinct: "store_wf s \<Longrightarrow> distinct (map fst (get_pending_markets s))"
  by (simp add: get_pending_keys store_wf_def distinct_map_filter)

lemma get_pending_rows_pending: "r \<in> set (get_pending_markets s) \<Longrightarrow> fst r \<in> pending_ids s"
  by (auto simp: get_pending_markets_def pending_ids_def)

lemma resolved_ids_mark_resolved_mono: "resolved_ids s \<subseteq> resolved_ids (mark_resolved mid s)"
  by (induction s) (auto simp: resolved_ids_def mark_resolved_def)

lemma resolved_ids_mem: "m \<in> set s \<Longrightarrow> status m = Resolved \<Longrightarrow> market_id m \<in> resolved_ids s"
  by (force simp: resolved_ids_def)

section \<open>Frame of the store\<close>

lemma only_resolved_refl [simp]: "only_resolved s s"
  by (simp add: only_resolved_def list_all2_refl)

lemma only_resolved_trans:
  "only_resolved s s' \<Longrightarrow> only_resolved s' s'' \<Longrightarrow> only_resolved s s''"
  unfolding only_resolved_def by (rule list_all2_trans [where bs = s']) auto

lemma only_resolved_mark_resolved: "only_resolved s (mark_resolved mid s)"
  by (induction s) (simp_all add: only_resolved_def mark_resolved_def)

lemma only_resolved_ids: "only_resolved s s' \<Longrightarrow> map market_id s' = map market_id s"
  unfolding only_resolved_def by (induction rule: list_all2_induct) auto

lemma only_resolved_wf: "only_resolved s s' \<Longrightarrow> store_wf s' = store_wf s"
  by (simp add: store_wf_def only_resolved_ids)

lemma only_resolved_resolved_mono: "only_resolved s s' \<Longrightarrow> resolved_ids s \<subseteq> resolved_ids s'"
  unfolding only_resolved_def by (induction rule: list_all2_induct) (auto simp: resolved_ids_def)

lemma only_resolved_row:
  assumes "only_resolved s s'" and "m \<in> set s"
  obtains "m \<in> set s'" | "m\<lparr>status := Resolved\<rparr> \<in> set s'"
proof -
  from assms(2) obtain k where k: "k < length s" "s ! k = m" by (auto simp: in_set_conv_nth)
  from assms(1) k have "k < length s'" and "s' ! k = m \<or> s' ! k = m\<lparr>status := Resolved\<rparr>"
    by (auto simp: only_resolved_def list_all2_conv_all_nth)
  then show ?thesis using that by (metis nth_mem)
qed

end
