(* ===== verification/Loop.thy ===== *)
theory Loop
  imports Pipeline Outcome Store
begin

text \<open>
  The resolution loop, \<open>main\<close> of \<open>src/Oracle/worker.py\<close> (lines 129--157).
  \<^item> \<open>process_market\<close> is the body of the \<open>for\<close> loop (lines 137--154) for one
    pending row: the deadline check, the reading, the decision, the pipeline and, on
    success only, \<open>db.mark_resolved\<close>. \<open>scan\<close> is the \<open>for\<close> loop over the rows
    read at the start of the iteration; \<open>tick\<close> is one iteration of \<open>while True\<close>
    (read the pending rows, the clock, scan; the sleep has no effect on the state);
    \<open>main\<close> is \<open>init_db\<close> followed by the first iterations of the unbounded loop.
  \<^item> The environment of an iteration is a \<open>tick_input\<close>: the clock
    \<open>time.time()\<close>, the value the outcome source returns at each market's attempt,
    and the SDK/node behaviour of each market's pipeline run. The code's own source
    is \<open>code_readings\<close>, the constant snapshot.
  \<^item> \<open>loop_step cfg obs\<close> is the same loop as a small-step relation with a program
    counter (\<open>loop_pc\<close>): between iterations, scanning the remaining rows, and between
    a successful pipeline run and \<open>mark_resolved\<close>. A step is labelled with the
    observations \<open>obs\<close> of its iteration (a \<open>tick_input\<close>): the poll reads the clock
    from it, and a due row is skipped only when its reading is absent and is otherwise
    attempted with that reading and that market's pipeline environment. A process
    stopped from outside stops in one of these states; \<open>reachable\<close> collects the states
    of all runs, the observations chosen freely at every step.
\<close>

datatype loop_pc =
    Polling
  | Scanning int "pending_row list"
  | Marking int "pending_row list" market_key

record oracle_state =
  store :: "market list"
  node :: network
  pc :: loop_pc

type_synonym tick_input = "py_float \<times> (market_key \<Rightarrow> py_float option) \<times> (market_key \<Rightarrow> sdk_env)"

definition code_readings :: "market_key \<Rightarrow> py_float option" where
  "code_readings _ = fetch_eth_staking_data"

definition process_market ::
  "config \<Rightarrow> (market_key \<Rightarrow> py_float option) \<Rightarrow> (market_key \<Rightarrow> sdk_env) \<Rightarrow> int \<Rightarrow> pending_row \<Rightarrow>
   market list \<times> network \<Rightarrow> market list \<times> network" where
  "process_market cfg readings envs current_time row sn =
     (case row of (mid, dl, thr, metric) \<Rightarrow>
      case sn of (s, n) \<Rightarrow>
        if current_time \<ge> dl then
          (case readings mid of
             None \<Rightarrow> (s, n)
           | Some value \<Rightarrow>
               (let winning = winning_option value thr in
                case resolve_market cfg (envs mid) mid winning n of
                  (True, n') \<Rightarrow> (mark_resolved mid s, n')
                | (False, n') \<Rightarrow> (s, n')))
        else (s, n))"

fun scan ::
  "config \<Rightarrow> (market_key \<Rightarrow> py_float option) \<Rightarrow> (market_key \<Rightarrow> sdk_env) \<Rightarrow> int \<Rightarrow> pending_row list \<Rightarrow>
   market list \<times> network \<Rightarrow> market list \<times> network" where
  "scan cfg readings envs now [] sn = sn"
| "scan cfg readings envs now (r # rows) sn =
     scan cfg readings envs now rows (process_market cfg readings envs now r sn)"

definition tick :: "config \<Rightarrow> tick_input \<Rightarrow> market list \<times> network \<Rightarrow> market list \<times> network" where
  "tick cfg inp sn =
     (case inp of (clock, readings, envs) \<Rightarrow>
        scan cfg readings envs (py_int clock) (get_pending_markets (fst sn)) sn)"

definition main :: "config \<Rightarrow> tick_input list \<Rightarrow> market list \<times> network \<Rightarrow> market list \<times> network" where
  "main cfg inputs sn = fold (tick cfg) inputs (init_db (fst sn), snd sn)"

section \<open>The loop as a step relation\<close>

inductive loop_step :: "config \<Rightarrow> tick_input \<Rightarrow> oracle_state \<Rightarrow> oracle_state \<Rightarrow> bool" for cfg where
  poll: "pc s = Polling \<Longrightarrow>
     loop_step cfg (clock, readings, envs) s
       (s\<lparr>pc := Scanning (py_int clock) (get_pending_markets (store s))\<rparr>)"
| not_due: "pc s = Scanning now ((mid, dl, th, mt) # rows) \<Longrightarrow> now < dl \<Longrightarrow>
     loop_step cfg obs s (s\<lparr>pc := Scanning now rows\<rparr>)"
| no_reading: "pc s = Scanning now ((mid, dl, th, mt) # rows) \<Longrightarrow> dl \<le> now \<Longrightarrow>
     readings mid = None \<Longrightarrow>
     loop_step cfg (clock, readings, envs) s (s\<lparr>pc := Scanning now rows\<rparr>)"
| attempt: "pc s = Scanning now ((mid, dl, th, mt) # rows) \<Longrightarrow> dl \<le> now \<Longrightarrow>
     readings mid = Some v \<Longrightarrow>
     resolve_market cfg (envs mid) mid (winning_option v th) (node s) = (ok, n') \<Longrightarrow>
     loop_step cfg (clock, readings, envs) s
       (s\<lparr>node := n', pc := (if ok then Marking now rows mid else Scanning now rows)\<rparr>)"
| mark: "pc s = Marking now rows mid \<Longrightarrow>
     loop_step cfg obs s (s\<lparr>store := mark_resolved mid (store s), pc := Scanning now rows\<rparr>)"
| sleep: "pc s = Scanning now [] \<Longrightarrow> loop_step cfg obs s (s\<lparr>pc := Polling\<rparr>)"

text \<open>Accepted resolutions: the broadcasts the node answered with 200, counted per market
  (the first input of the requested call).\<close>

fun auth_market :: "auth \<Rightarrow> market_key option" where
  "auth_market (Auth _ _ _ (Value m # _)) = Some m"
| "auth_market _ = None"

definition accepted :: "network \<Rightarrow> market_key \<Rightarrow> nat" where
  "accepted n mid =
     length (filter (\<lambda>(u, tx, st). st = 200 \<and> auth_market (tx_request tx) = Some mid) (posts n))"

definition marking_id :: "loop_pc \<Rightarrow> market_key option" where
  "marking_id p = (case p of Marking _ _ mid \<Rightarrow> Some mid | _ \<Rightarrow> None)"

definition scan_rows :: "loop_pc \<Rightarrow> pending_row list" where
  "scan_rows p = (case p of Polling \<Rightarrow> [] | Scanning _ rows \<Rightarrow> rows | Marking _ rows _ \<Rightarrow> rows)"

text \<open>A consistent start: between iterations, market ids unique, and a market resolved
  exactly when one resolution of it was accepted.\<close>

definition oracle_init :: "oracle_state \<Rightarrow> bool" where
  "oracle_init s \<longleftrightarrow> pc s = Polling \<and> store_wf (store s) \<and>
     (\<forall>mid. accepted (node s) mid = (if mid \<in> resolved_ids (store s) then 1 else 0))"

inductive reachable :: "config \<Rightarrow> oracle_state \<Rightarrow> bool" for cfg where
  init: "oracle_init s \<Longrightarrow> reachable cfg s"
| step: "reachable cfg s \<Longrightarrow> loop_step cfg obs s t \<Longrightarrow> reachable cfg t"

definition loop_inv :: "oracle_state \<Rightarrow> bool" where
  "loop_inv s \<longleftrightarrow> store_wf (store s) \<and>
     (\<forall>mid. accepted (node s) mid =
        (if mid \<in> resolved_ids (store s) \<or> marking_id (pc s) = Some mid then 1 else 0)) \<and>
     distinct (map fst (scan_rows (pc s))) \<and>
     (\<forall>r \<in> set (scan_rows (pc s)). fst r \<in> pending_ids (store s) \<and> marking_id (pc s) \<noteq> Some (fst r)) \<and>
     (\<forall>mid. marking_id (pc s) = Some mid \<longrightarrow> mid \<in> pending_ids (store s))"

section \<open>Example states\<close>

text \<open>Scenario A of the spec: one pending market \<open>''1field''\<close>, deadline 100, threshold
  30; the clock reads 200; the pipeline environment is \<open>demo_env\<close>. The states of
  one iteration: polled, pipeline succeeded (before \<open>mark_resolved\<close>), marked.\<close>

definition demo_market :: market where
  "demo_market = \<lparr>market_id = ''1field'', deadline = 100, threshold = 30,
     metric_type = EthStakingRate, status = Pending\<rparr>"

definition demo_state :: oracle_state where
  "demo_state = \<lparr>store = [demo_market], node = demo_net, pc = Polling\<rparr>"

definition demo_polled :: oracle_state where
  "demo_polled = demo_state\<lparr>pc := Scanning 200 [(''1field'', 100, 30, EthStakingRate)]\<rparr>"

definition demo_node :: network where
  "demo_node = snd (resolve_market demo_cfg (demo_env 7) ''1field'' 2 demo_net)"

definition demo_broadcast :: oracle_state where
  "demo_broadcast = demo_polled\<lparr>node := demo_node, pc := Marking 200 [] ''1field''\<rparr>"

definition demo_marked :: oracle_state where
  "demo_marked = demo_broadcast\<lparr>store := mark_resolved ''1field'' [demo_market], pc := Scanning 200 []\<rparr>"

section \<open>Broadcast accounting\<close>

lemma accepted_append:
  "accepted (n\<lparr>posts := posts n @ [(u, tx, st)]\<rparr>) m =
   accepted n m + (if st = 200 \<and> auth_market (tx_request tx) = Some m then 1 else 0)"
  by (simp add: accepted_def)

lemma planned_transaction_market:
  "auth_market (tx_request (planned_transaction env net key mid opt)) = Some mid"
  by (simp add: planned_transaction_def planned_execution_def planned_auth_def Let_def)

text \<open>One pipeline run adds one accepted resolution, for its own market, exactly when it
  returns \<open>True\<close>.\<close>

lemma resolve_market_accepted:
  assumes "resolve_market cfg env mid opt n = (ok, n')"
  shows "accepted n' m = accepted n m + (if ok \<and> m = mid then 1 else 0)"
  using assms
  by (auto simp: resolve_market_eq accepted_append planned_transaction_market Let_def
      split: option.splits prod.splits if_splits)

section \<open>The invariant of the loop\<close>

lemma oracle_init_inv: "oracle_init s \<Longrightarrow> loop_inv s"
  by (simp add: oracle_init_def loop_inv_def marking_id_def scan_rows_def)

lemma loop_inv_poll:
  assumes "loop_inv s" and "pc s = Polling"
  shows "loop_inv (s\<lparr>pc := Scanning now (get_pending_markets (store s))\<rparr>)"
  using assms get_pending_distinct [of "store s"] get_pending_rows_pending [of _ "store s"]
  by (simp add: loop_inv_def marking_id_def scan_rows_def)

lemma loop_inv_skip:
  assumes "loop_inv s" and "pc s = Scanning now (r # rows)"
  shows "loop_inv (s\<lparr>pc := Scanning now rows\<rparr>)"
  using assms by (simp add: loop_inv_def marking_id_def scan_rows_def)

lemma loop_inv_attempt:
  assumes inv: "loop_inv s" and pc: "pc s = Scanning now ((mid, dl, th, mt) # rows)"
    and run: "resolve_market cfg env mid opt (node s) = (ok, n')"
  shows "loop_inv (s\<lparr>node := n', pc := (if ok then Marking now rows mid else Scanning now rows)\<rparr>)"
proof -
  have acc: "accepted n' m = accepted (node s) m + (if ok \<and> m = mid then 1 else 0)" for m
    using run by (rule resolve_market_accepted)
  from inv pc have pend: "mid \<in> pending_ids (store s)" and wf: "store_wf (store s)"
    by (simp_all add: loop_inv_def scan_rows_def)
  then have "mid \<notin> resolved_ids (store s)" by (simp add: pending_resolved_disjoint)
  with inv pc have zero: "accepted (node s) mid = 0"
    by (simp add: loop_inv_def marking_id_def)
  show ?thesis
  proof (cases ok)
    case True
    with inv pc acc zero pend show ?thesis
      by (auto simp: loop_inv_def marking_id_def scan_rows_def)
  next
    case False
    with inv pc acc show ?thesis
      by (simp add: loop_inv_def marking_id_def scan_rows_def)
  qed
qed

lemma loop_inv_mark:
  assumes inv: "loop_inv s" and pc: "pc s = Marking now rows mid"
  shows "loop_inv (s\<lparr>store := mark_resolved mid (store s), pc := Scanning now rows\<rparr>)"
proof -
  from inv pc have pend: "mid \<in> pending_ids (store s)"
    by (simp add: loop_inv_def marking_id_def)
  then have "mid \<in> set (map market_id (store s))"
    using ids_pending_or_resolved [of "store s"] by blast
  then have res: "resolved_ids (mark_resolved mid (store s)) = insert mid (resolved_ids (store s))"
    by (rule resolved_ids_mark_resolved)
  from inv pc res show ?thesis
    by (auto simp: loop_inv_def marking_id_def scan_rows_def store_simps)
qed

lemma loop_inv_sleep:
  assumes "loop_inv s" and "pc s = Scanning now []"
  shows "loop_inv (s\<lparr>pc := Polling\<rparr>)"
  using assms by (simp add: loop_inv_def marking_id_def scan_rows_def)

lemma loop_step_inv: "loop_step cfg obs s t \<Longrightarrow> loop_inv s \<Longrightarrow> loop_inv t"
proof (induction rule: loop_step.induct)
  case poll
  then show ?case by (blast intro: loop_inv_poll)
next
  case not_due
  then show ?case by (blast intro: loop_inv_skip)
next
  case no_reading
  then show ?case by (blast intro: loop_inv_skip)
next
  case attempt
  then show ?case by (blast intro: loop_inv_attempt)
next
  case mark
  then show ?case by (blast intro: loop_inv_mark)
next
  case sleep
  then show ?case by (blast intro: loop_inv_sleep)
qed

lemma reachable_inv: "reachable cfg s \<Longrightarrow> loop_inv s"
proof (induction rule: reachable.induct)
  case (init s)
  then show ?case by (rule oracle_init_inv)
next
  case (step s t)
  then show ?case by (blast intro: loop_step_inv)
qed

section \<open>The example run\<close>

lemma demo_resolve: "resolve_market demo_cfg (demo_env 7) ''1field'' 2 demo_net = (True, demo_node)"
proof -
  have "fst (resolve_market demo_cfg (demo_env 7) ''1field'' 2 demo_net)"
    by (simp add: resolve_market_eq demo_cfg_def resolution_calls_def call_fails_def demo_env_def
        demo_net_def Let_def)
  then show ?thesis by (simp add: demo_node_def prod_eq_iff)
qed

lemma demo_state_init: "oracle_init demo_state"
  by (simp add: oracle_init_def demo_state_def demo_market_def store_wf_def resolved_ids_def
      accepted_def demo_net_def)

lemma demo_polled_reachable: "reachable demo_cfg demo_polled"
proof -
  have "loop_step demo_cfg (200, code_readings, \<lambda>_. demo_env 7) demo_state
      (demo_state\<lparr>pc := Scanning (py_int 200) (get_pending_markets (store demo_state))\<rparr>)"
    by (rule loop_step.poll) (simp add: demo_state_def)
  moreover have "demo_state\<lparr>pc := Scanning (py_int 200) (get_pending_markets (store demo_state))\<rparr> =
      demo_polled"
    by (simp add: demo_polled_def demo_state_def demo_market_def get_pending_markets_def py_int_def)
  ultimately show ?thesis
    using reachable.init [OF demo_state_init] by (metis reachable.step)
qed

lemma demo_broadcast_reachable: "reachable demo_cfg demo_broadcast"
proof -
  have "loop_step demo_cfg (200, code_readings, \<lambda>_. demo_env 7) demo_polled
      (demo_polled\<lparr>node := demo_node, pc := (if True then Marking 200 [] ''1field'' else Scanning 200 [])\<rparr>)"
    by (rule loop_step.attempt [where v = "2875 / 100 - 1 / 2 ^ 48" and now = 200 and dl = 100
          and th = 30 and mt = EthStakingRate and mid = "''1field''" and rows = "[]"])
      (simp_all add: demo_polled_def demo_state_def code_readings_def fetch_eth_staking_data_eq
        winning_option_def demo_resolve)
  then show ?thesis
    using demo_polled_reachable by (auto simp: demo_broadcast_def intro: reachable.step)
qed

lemma demo_marked_reachable: "reachable demo_cfg demo_marked"
proof -
  have "loop_step demo_cfg (200, code_readings, \<lambda>_. demo_env 7) demo_broadcast
      (demo_broadcast\<lparr>store := mark_resolved ''1field'' (store demo_broadcast), pc := Scanning 200 []\<rparr>)"
    by (rule loop_step.mark) (simp add: demo_broadcast_def)
  then show ?thesis
    using demo_broadcast_reachable
    by (auto simp: demo_marked_def demo_broadcast_def demo_polled_def demo_state_def
        intro: reachable.step)
qed

section \<open>Safety of the loop\<close>

text \<open>C10: in every state the loop can be stopped in, a market marked resolved in the store
  has exactly one accepted resolution on the network: \<open>mark_resolved\<close> is never called
  before the broadcast succeeded.\<close>

theorem reachable_resolved_has_broadcast:
  "reachable cfg s \<Longrightarrow> mid \<in> resolved_ids (store s) \<Longrightarrow> accepted (node s) mid = 1"
  by (drule reachable_inv) (simp add: loop_inv_def)

theorem reachable_resolved_has_broadcast_witness:
  "''1field'' \<in> resolved_ids (store demo_marked) \<and> accepted (node demo_marked) ''1field'' = 1"
proof -
  have r: "''1field'' \<in> resolved_ids (store demo_marked)"
    by (simp add: demo_marked_def demo_broadcast_def demo_polled_def demo_state_def
        demo_market_def resolved_ids_def mark_resolved_def)
  with reachable_resolved_has_broadcast [OF demo_marked_reachable r] show ?thesis by simp
qed

text \<open>C11: no market is ever resolved twice on the network: in every reachable state at
  most one broadcast per market was accepted.\<close>

theorem reachable_single_broadcast:
  "reachable cfg s \<Longrightarrow> accepted (node s) mid \<le> 1"
  by (drule reachable_inv) (simp add: loop_inv_def)

theorem reachable_single_broadcast_witness:
  "accepted (node demo_marked) ''1field'' \<le> 1"
  by (rule reachable_single_broadcast [OF demo_marked_reachable])

text \<open>C12: outside the window between a successful pipeline run and its
  \<open>mark_resolved\<close>, a market is resolved in the store exactly when a resolution of it was
  accepted on the network.\<close>

theorem reachable_accepted_iff_resolved:
  "reachable cfg s \<Longrightarrow> marking_id (pc s) = None \<Longrightarrow>
   0 < accepted (node s) mid \<longleftrightarrow> mid \<in> resolved_ids (store s)"
  by (drule reachable_inv) (simp add: loop_inv_def)

theorem reachable_accepted_iff_resolved_witness:
  "marking_id (pc demo_marked) = None \<and>
   (0 < accepted (node demo_marked) ''1field'' \<longleftrightarrow> ''1field'' \<in> resolved_ids (store demo_marked))"
proof -
  have m: "marking_id (pc demo_marked) = None" by (simp add: demo_marked_def marking_id_def)
  show ?thesis using m reachable_accepted_iff_resolved [OF demo_marked_reachable m] by simp
qed

section \<open>The functional loop is a run of the step relation\<close>

text \<open>With the observations of an iteration fixed (the clock, the readings and the pipeline
  environments of \<open>tick\<close>'s input), each row of the scan is handled by exactly the steps
  its guards select: \<open>not_due\<close> before the deadline, \<open>no_reading\<close> when the reading is
  absent, otherwise \<open>attempt\<close> with that reading and that environment, followed by
  \<open>mark\<close> when the pipeline returned \<open>True\<close>.\<close>

lemma process_market_steps:
  assumes pc: "pc s = Scanning now (r # rows)"
  shows "(loop_step cfg (clock, readings, envs))\<^sup>*\<^sup>* s
     (s\<lparr>store := fst (process_market cfg readings envs now r (store s, node s)),
        node := snd (process_market cfg readings envs now r (store s, node s)),
        pc := Scanning now rows\<rparr>)"
proof -
  obtain mid dl th mt where r: "r = (mid, dl, th, mt)" by (cases r) auto
  from pc r have pc': "pc s = Scanning now ((mid, dl, th, mt) # rows)" by simp
  show ?thesis
  proof (cases "dl \<le> now")
    case False
    then have "loop_step cfg (clock, readings, envs) s (s\<lparr>pc := Scanning now rows\<rparr>)"
      using pc' by (auto intro: loop_step.not_due)
    with False r show ?thesis by (simp add: process_market_def)
  next
    case due: True
    show ?thesis
    proof (cases "readings mid")
      case None
      have "loop_step cfg (clock, readings, envs) s (s\<lparr>pc := Scanning now rows\<rparr>)"
        by (rule loop_step.no_reading [where readings = readings, OF pc' due None])
      with due None r show ?thesis by (simp add: process_market_def)
    next
      case (Some v)
      obtain ok n' where run: "resolve_market cfg (envs mid) mid (winning_option v th) (node s) = (ok, n')"
        by (cases "resolve_market cfg (envs mid) mid (winning_option v th) (node s)") auto
      let ?t = "s\<lparr>node := n', pc := (if ok then Marking now rows mid else Scanning now rows)\<rparr>"
      have step: "loop_step cfg (clock, readings, envs) s ?t"
        by (rule loop_step.attempt [where readings = readings and envs = envs, OF pc' due Some run])
      show ?thesis
      proof (cases ok)
        case True
        have "loop_step cfg (clock, readings, envs) ?t
            (?t\<lparr>store := mark_resolved mid (store ?t), pc := Scanning now rows\<rparr>)"
          by (rule loop_step.mark) (simp add: True)
        with step have reach: "(loop_step cfg (clock, readings, envs))\<^sup>*\<^sup>* s
            (?t\<lparr>store := mark_resolved mid (store ?t), pc := Scanning now rows\<rparr>)"
          by (meson r_into_rtranclp rtranclp.rtrancl_into_rtrancl)
        have eq: "?t\<lparr>store := mark_resolved mid (store ?t), pc := Scanning now rows\<rparr> =
            s\<lparr>store := mark_resolved mid (store s), node := n', pc := Scanning now rows\<rparr>"
          using True by (cases s) simp
        from reach have "(loop_step cfg (clock, readings, envs))\<^sup>*\<^sup>* s
            (s\<lparr>store := mark_resolved mid (store s), node := n', pc := Scanning now rows\<rparr>)"
          by (simp only: eq)
        then show ?thesis using True due Some run r by (simp add: process_market_def)
      next
        case False
        with step due Some run r show ?thesis by (simp add: process_market_def)
      qed
    qed
  qed
qed

lemma scan_steps:
  "pc s = Scanning now rows \<Longrightarrow>
   (loop_step cfg (clock, readings, envs))\<^sup>*\<^sup>* s
     (s\<lparr>store := fst (scan cfg readings envs now rows (store s, node s)),
        node := snd (scan cfg readings envs now rows (store s, node s)),
        pc := Scanning now []\<rparr>)"
proof (induction rows arbitrary: s)
  case Nil
  then have "s\<lparr>pc := Scanning now []\<rparr> = s" by (cases s) simp
  then show ?case by simp
next
  case (Cons r rows)
  let ?t = "s\<lparr>store := fst (process_market cfg readings envs now r (store s, node s)),
        node := snd (process_market cfg readings envs now r (store s, node s)),
        pc := Scanning now rows\<rparr>"
  have first: "(loop_step cfg (clock, readings, envs))\<^sup>*\<^sup>* s ?t"
    using Cons.prems by (rule process_market_steps)
  have "(loop_step cfg (clock, readings, envs))\<^sup>*\<^sup>* ?t
     (?t\<lparr>store := fst (scan cfg readings envs now rows (store ?t, node ?t)),
        node := snd (scan cfg readings envs now rows (store ?t, node ?t)),
        pc := Scanning now []\<rparr>)"
    by (rule Cons.IH) simp
  with first show ?case by simp
qed

lemma tick_steps:
  assumes "pc s = Polling"
  shows "(loop_step cfg (clock, readings, envs))\<^sup>*\<^sup>* s
     (s\<lparr>store := fst (tick cfg (clock, readings, envs) (store s, node s)),
        node := snd (tick cfg (clock, readings, envs) (store s, node s))\<rparr>)"
proof -
  let ?obs = "(clock, readings, envs)"
  let ?rows = "get_pending_markets (store s)"
  let ?u = "s\<lparr>pc := Scanning (py_int clock) ?rows\<rparr>"
  let ?sn = "scan cfg readings envs (py_int clock) ?rows (store ?u, node ?u)"
  let ?v = "?u\<lparr>store := fst ?sn, node := snd ?sn, pc := Scanning (py_int clock) []\<rparr>"
  have poll: "loop_step cfg ?obs s ?u"
    using assms by (rule loop_step.poll)
  have scan: "(loop_step cfg ?obs)\<^sup>*\<^sup>* ?u ?v"
    by (rule scan_steps) simp
  have sleep: "loop_step cfg ?obs ?v (?v\<lparr>pc := Polling\<rparr>)"
    by (rule loop_step.sleep) simp
  from poll scan sleep have "(loop_step cfg ?obs)\<^sup>*\<^sup>* s (?v\<lparr>pc := Polling\<rparr>)"
    by (meson converse_rtranclp_into_rtranclp rtranclp.rtrancl_into_rtrancl)
  moreover have "?v\<lparr>pc := Polling\<rparr> =
      s\<lparr>store := fst (tick cfg ?obs (store s, node s)), node := snd (tick cfg ?obs (store s, node s))\<rparr>"
    using assms by (cases s) (simp add: tick_def)
  ultimately show ?thesis by simp
qed



section \<open>One market per iteration\<close>

lemma process_market_store_cases:
  "fst (process_market cfg readings envs now r (s, n)) = s \<or>
   fst (process_market cfg readings envs now r (s, n)) = mark_resolved (fst r) s"
  by (cases r) (auto simp: process_market_def Let_def split: option.splits prod.splits bool.splits)

lemma process_market_unchanged:
  "\<not> fst (snd r) \<le> now \<or> readings (fst r) = None \<Longrightarrow>
   fst (process_market cfg readings envs now r (s, n)) = s"
  by (cases r) (auto simp: process_market_def)

lemma scan_keeps_pending:
  "(\<forall>r \<in> set rows. fst r = mid \<longrightarrow> now < fst (snd r) \<or> readings mid = None) \<Longrightarrow>
   mid \<in> pending_ids (fst sn) \<Longrightarrow>
   mid \<in> pending_ids (fst (scan cfg readings envs now rows sn))"
proof (induction rows arbitrary: sn)
  case Nil
  then show ?case by simp
next
  case (Cons r rows)
  obtain s n where sn: "sn = (s, n)" by (cases sn)
  have "mid \<in> pending_ids (fst (process_market cfg readings envs now r (s, n)))"
  proof (cases "fst r = mid")
    case True
    with Cons.prems have "\<not> fst (snd r) \<le> now \<or> readings (fst r) = None" by auto
    then show ?thesis using Cons.prems sn by (simp add: process_market_unchanged)
  next
    case False
    with Cons.prems sn process_market_store_cases [of cfg readings envs now r s n] show ?thesis
      by (auto simp: pending_ids_mark_resolved)
  qed
  with Cons.prems Cons.IH sn show ?case by simp
qed

lemma get_pending_row_deadline:
  assumes "store_wf s" and "m \<in> set s" and "r \<in> set (get_pending_markets s)"
    and "fst r = market_id m"
  shows "fst (snd r) = deadline m"
proof -
  from assms(3) obtain m' where m': "m' \<in> set s"
    and r: "r = (market_id m', deadline m', threshold m', metric_type m')"
    by (auto simp: get_pending_markets_def)
  from assms(1) have "inj_on market_id (set s)" by (simp add: store_wf_def distinct_map)
  with assms(2,4) m' r have "m' = m" by (metis fst_conv inj_onD)
  with r show ?thesis by simp
qed

text \<open>C14: in one iteration, a pending market whose deadline has not passed, or for which
  the outcome source gives no reading, stays pending, whatever happens to the other
  markets (scenarios C and E of the spec).\<close>

theorem tick_keeps_pending:
  assumes "store_wf s" and "m \<in> set s" and "status m = Pending"
    and "py_int clock < deadline m \<or> readings (market_id m) = None"
  shows "market_id m \<in> pending_ids (fst (tick cfg (clock, readings, envs) (s, n)))"
proof -
  have rows: "\<forall>r \<in> set (get_pending_markets s). fst r = market_id m \<longrightarrow>
      py_int clock < fst (snd r) \<or> readings (market_id m) = None"
    using assms(1,2,4) get_pending_row_deadline by metis
  have "market_id m \<in> pending_ids s"
    using assms(2,3) by (auto simp: pending_ids_def)
  with rows show ?thesis
    by (simp add: tick_def scan_keeps_pending)
qed

theorem tick_keeps_pending_witness:
  "''1field'' \<in> pending_ids (fst (tick demo_cfg (50, code_readings, \<lambda>_. demo_env 7) ([demo_market], demo_net)))"
proof -
  have "market_id demo_market \<in> pending_ids (fst (tick demo_cfg (50, code_readings, \<lambda>_. demo_env 7) ([demo_market], demo_net)))"
    by (rule tick_keeps_pending) (simp_all add: store_wf_def demo_market_def py_int_def)
  then show ?thesis by (simp add: demo_market_def)
qed

text \<open>C15: handling one due market changes the store exactly when the pipeline for it
  returned success, and then only by marking that market resolved: a failure at any
  stage leaves the store unmodified.\<close>

theorem process_market_store_change:
  "fst (process_market cfg readings envs now (mid, dl, thr, mt) (s, n)) =
     (if dl \<le> now \<and> (\<exists>v. readings mid = Some v \<and>
                          fst (resolve_market cfg (envs mid) mid (winning_option v thr) n))
      then mark_resolved mid s else s)"
  by (auto simp: process_market_def Let_def split: option.splits prod.splits bool.splits)

end
