(* ===== verification/Loop_Main.thy ===== *)
theory Loop_Main
  imports Loop "HOL-Library.Sublist"
begin

text \<open>
  The loop over many iterations. Lemmas on the functional form of \<open>main\<close> of
  \<open>src/Oracle/worker.py\<close> (lines 129--157): what one iteration, and a sequence of them,
  may do to the store (\<open>only_resolved\<close>) and to the network (only broadcasts are added,
  the deployed programs are untouched; the broadcasts of an iteration are for due
  markets with a reading, in store order), that a due market whose pipeline run succeeds
  is resolved in that iteration whatever happens to the other markets, and that the
  consistency of store and network carried by the step relation holds after every
  iteration.
\<close>

text \<open>The markets the broadcasts of a log are for.\<close>

abbreviation post_markets :: "(string \<times> transaction \<times> nat) list \<Rightarrow> market_key option list" where
  "post_markets ps \<equiv> map (\<lambda>(u, tx, st). auth_market (tx_request tx)) ps"

section \<open>What an iteration changes\<close>

lemma resolve_market_programs [simp]:
  "programs (snd (resolve_market cfg env mid opt n)) = programs n"
  by (simp add: resolve_market_def broadcast_def Let_def split: option.splits sum.splits prod.splits)

lemma process_market_eq:
  "process_market cfg readings envs now (mid, dl, th, mt) (s, n) =
     (if dl \<le> now then
        (case readings mid of
           None \<Rightarrow> (s, n)
         | Some v \<Rightarrow>
             (let r = resolve_market cfg (envs mid) mid (winning_option v th) n in
              (if fst r then mark_resolved mid s else s, snd r)))
      else (s, n))"
  by (simp add: process_market_def Let_def split: option.split prod.split bool.split)

lemma process_market_frame:
  "only_resolved (fst sn) (fst (process_market cfg readings envs now r sn)) \<and>
   programs (snd (process_market cfg readings envs now r sn)) = programs (snd sn)"
proof (cases sn)
  case (Pair s n)
  obtain mid dl th mt where r: "r = (mid, dl, th, mt)" by (cases r) auto
  have "only_resolved s (fst (process_market cfg readings envs now r (s, n)))"
    using process_market_store_cases [of cfg readings envs now r s n]
    by (auto simp: only_resolved_mark_resolved)
  moreover have "programs (snd (process_market cfg readings envs now r (s, n))) = programs n"
    by (simp add: process_market_eq r Let_def split: option.split)
  ultimately show ?thesis by (simp add: Pair)
qed

lemma scan_frame:
  "only_resolved (fst sn) (fst (scan cfg readings envs now rows sn)) \<and>
   programs (snd (scan cfg readings envs now rows sn)) = programs (snd sn)"
proof (induction rows arbitrary: sn)
  case Nil
  then show ?case by simp
next
  case (Cons r rows)
  from process_market_frame [of sn cfg readings envs now r]
    Cons.IH [of "process_market cfg readings envs now r sn"]
  show ?case by (auto intro: only_resolved_trans)
qed

lemma tick_frame:
  "only_resolved (fst sn) (fst (tick cfg inp sn)) \<and> programs (snd (tick cfg inp sn)) = programs (snd sn)"
  by (cases inp) (simp add: tick_def scan_frame)

lemma fold_tick_frame:
  "only_resolved (fst sn) (fst (fold (tick cfg) inputs sn)) \<and>
   programs (snd (fold (tick cfg) inputs sn)) = programs (snd sn)"
proof (induction inputs arbitrary: sn)
  case Nil
  then show ?case by simp
next
  case (Cons inp inputs)
  from tick_frame [of sn cfg inp] Cons.IH [of "tick cfg inp sn"]
  show ?case by (auto intro: only_resolved_trans)
qed

section \<open>The broadcasts of an iteration\<close>

lemma resolve_market_posts:
  "posts (snd (resolve_market cfg env mid opt n)) = posts n \<or>
   (\<exists>u tx st. posts (snd (resolve_market cfg env mid opt n)) = posts n @ [(u, tx, st)] \<and>
      auth_market (tx_request tx) = Some mid)"
  by (auto simp: resolve_market_def broadcast_def build_transaction_eq planned_transaction_market
      Let_def split: option.splits sum.splits prod.splits)

lemma process_market_posts:
  "posts (snd (process_market cfg readings envs now r sn)) = posts (snd sn) \<or>
   (fst (snd r) \<le> now \<and> readings (fst r) \<noteq> None \<and>
    (\<exists>u tx st. posts (snd (process_market cfg readings envs now r sn)) = posts (snd sn) @ [(u, tx, st)] \<and>
      auth_market (tx_request tx) = Some (fst r)))"
proof -
  obtain mid dl th mt where r: "r = (mid, dl, th, mt)" by (cases r) auto
  obtain s n where sn: "sn = (s, n)" by (cases sn)
  show ?thesis
  proof (cases "dl \<le> now \<and> readings mid \<noteq> None")
    case True
    then obtain v where v: "readings mid = Some v" by auto
    from True v resolve_market_posts [of cfg "envs mid" mid "winning_option v th" n]
    show ?thesis by (simp add: r sn process_market_eq Let_def)
  next
    case False
    then show ?thesis by (auto simp: r sn process_market_eq)
  qed
qed

lemma scan_posts:
  "\<exists>new. posts (snd (scan cfg readings envs now rows sn)) = posts (snd sn) @ new \<and>
     subseq (post_markets new)
       (map (\<lambda>r. Some (fst r)) (filter (\<lambda>r. fst (snd r) \<le> now \<and> readings (fst r) \<noteq> None) rows))"
proof (induction rows arbitrary: sn)
  case Nil
  then show ?case by simp
next
  case (Cons r rows)
  let ?sn = "process_market cfg readings envs now r sn"
  from Cons.IH [of ?sn] obtain new where
    new: "posts (snd (scan cfg readings envs now rows ?sn)) = posts (snd ?sn) @ new"
    "subseq (post_markets new)
       (map (\<lambda>r. Some (fst r)) (filter (\<lambda>r. fst (snd r) \<le> now \<and> readings (fst r) \<noteq> None) rows))"
    by blast
  from process_market_posts [of cfg readings envs now r sn] show ?case
  proof
    assume "posts (snd ?sn) = posts (snd sn)"
    with new show ?case by auto
  next
    assume "fst (snd r) \<le> now \<and> readings (fst r) \<noteq> None \<and>
      (\<exists>u tx st. posts (snd ?sn) = posts (snd sn) @ [(u, tx, st)] \<and> auth_market (tx_request tx) = Some (fst r))"
    then obtain u tx st where due: "fst (snd r) \<le> now" "readings (fst r) \<noteq> None"
      and p: "posts (snd ?sn) = posts (snd sn) @ [(u, tx, st)]" "auth_market (tx_request tx) = Some (fst r)"
      by blast
    have "posts (snd (scan cfg readings envs now (r # rows) sn)) = posts (snd sn) @ ((u, tx, st) # new)"
      using new(1) p(1) by simp
    moreover have "subseq (post_markets ((u, tx, st) # new))
       (map (\<lambda>r. Some (fst r)) (filter (\<lambda>r. fst (snd r) \<le> now \<and> readings (fst r) \<noteq> None) (r # rows)))"
      using new(2) due p(2) by simp
    ultimately show ?case by blast
  qed
qed

section \<open>A due market whose pipeline succeeds is resolved\<close>

lemma process_market_resolves:
  assumes "dl \<le> now" and "readings mid = Some v"
    and "fst (resolve_market cfg (envs mid) mid (winning_option v th) (snd sn))"
    and "mid \<in> set (map market_id (fst sn))"
  shows "mid \<in> resolved_ids (fst (process_market cfg readings envs now (mid, dl, th, mt) sn))"
proof (cases sn)
  case (Pair s n)
  have "fst (process_market cfg readings envs now (mid, dl, th, mt) (s, n)) = mark_resolved mid s"
    using assms(1,2,3) Pair by (simp add: process_market_eq Let_def)
  with assms(4) Pair show ?thesis by (simp add: resolved_ids_mark_resolved)
qed

lemma scan_resolves:
  assumes "(mid, dl, th, mt) \<in> set rows" and "distinct (map fst rows)"
    and "dl \<le> now" and "readings mid = Some v"
    and "\<forall>n'. programs n' = P \<longrightarrow> fst (resolve_market cfg (envs mid) mid (winning_option v th) n')"
    and "programs (snd sn) = P" and "mid \<in> set (map market_id (fst sn))"
  shows "mid \<in> resolved_ids (fst (scan cfg readings envs now rows sn))"
  using assms(1,2,6,7)
proof (induction rows arbitrary: sn)
  case Nil
  then show ?case by simp
next
  case (Cons r rows)
  let ?sn = "process_market cfg readings envs now r sn"
  have fr: "only_resolved (fst sn) (fst ?sn)" "programs (snd ?sn) = P"
    using process_market_frame [of sn cfg readings envs now r] Cons.prems(3) by simp_all
  show ?case
  proof (cases "r = (mid, dl, th, mt)")
    case True
    have "mid \<in> resolved_ids (fst ?sn)"
      unfolding True using assms(3,4,5) Cons.prems(3,4) by (intro process_market_resolves) auto
    then show ?thesis
      using scan_frame [of ?sn cfg readings envs now rows] only_resolved_resolved_mono by auto
  next
    case False
    with Cons.prems(1,2) have "(mid, dl, th, mt) \<in> set rows" "distinct (map fst rows)" by auto
    moreover have "mid \<in> set (map market_id (fst ?sn))"
      using Cons.prems(4) fr(1) by (simp add: only_resolved_ids)
    ultimately show ?thesis using Cons.IH fr(2) by simp
  qed
qed

lemma tick_resolves:
  assumes "store_wf s" and "m \<in> set s" and "status m = Pending"
    and "deadline m \<le> py_int clock" and "readings (market_id m) = Some v"
    and "\<forall>n'. programs n' = programs n \<longrightarrow>
           fst (resolve_market cfg (envs (market_id m)) (market_id m) (winning_option v (threshold m)) n')"
  shows "market_id m \<in> resolved_ids (fst (tick cfg (clock, readings, envs) (s, n)))"
proof -
  have row: "(market_id m, deadline m, threshold m, metric_type m) \<in> set (get_pending_markets s)"
    using assms(2,3) by (auto simp: get_pending_markets_def)
  have "market_id m \<in> set (map market_id s)" using assms(2) by simp
  with row assms(1,4,5,6) show ?thesis
    by (simp add: tick_def scan_resolves get_pending_distinct)
qed

lemma fold_tick_keeps_resolved:
  "mid \<in> resolved_ids (fst sn) \<Longrightarrow> mid \<in> resolved_ids (fst (fold (tick cfg) inputs sn))"
  using fold_tick_frame [of sn cfg inputs] only_resolved_resolved_mono by blast

text \<open>A pipeline run succeeds on every network that serves the program, when the
  settings are present, no SDK call of the run raises and the node accepts.\<close>

lemma resolve_market_ready:
  assumes "ORACLE_PRIVATE_KEY cfg = Some key" "key \<noteq> []" "ALEO_NODE_URL cfg = Some node_url"
    "node_url \<noteq> []" and "\<forall>c. \<not> raises env c"
    and "\<forall>tx. post_response env (broadcast_url node_url) tx = Some (200, body)"
    and "programs n program_id \<noteq> None"
  shows "fst (resolve_market cfg env mid opt n)"
  using assms by (simp add: resolve_market_all_succeed)

lemma fold_tick_resolves:
  assumes "store_wf s" and "m \<in> set s" and "i < length inputs"
    and "inputs ! i = (clock, readings, envs)"
    and "deadline m \<le> py_int clock" and "readings (market_id m) = Some v"
    and "\<forall>n'. programs n' = programs n \<longrightarrow>
           fst (resolve_market cfg (envs (market_id m)) (market_id m) (winning_option v (threshold m)) n')"
  shows "market_id m \<in> resolved_ids (fst (fold (tick cfg) inputs (s, n)))"
proof -
  let ?sn = "fold (tick cfg) (take i inputs) (s, n)"
  have split: "inputs = take i inputs @ (clock, readings, envs) # drop (Suc i) inputs"
    using assms(3,4) id_take_nth_drop by metis
  have fr: "only_resolved s (fst ?sn)" "programs (snd ?sn) = programs n"
    using fold_tick_frame [of "(s, n)" cfg "take i inputs"] by simp_all
  have wf: "store_wf (fst ?sn)" using fr(1) assms(1) by (simp add: only_resolved_wf)
  have now: "market_id m \<in> resolved_ids (fst (tick cfg (clock, readings, envs) ?sn))"
  proof (rule only_resolved_row [OF fr(1) assms(2)])
    assume m: "m \<in> set (fst ?sn)"
    show ?thesis
    proof (cases "status m")
      case Pending
      have "market_id m \<in> resolved_ids (fst (tick cfg (clock, readings, envs) (fst ?sn, snd ?sn)))"
        using wf m Pending assms(5,6,7) fr(2) by (intro tick_resolves) auto
      then show ?thesis by simp
    next
      case Resolved
      with m have "market_id m \<in> resolved_ids (fst ?sn)" by (rule resolved_ids_mem)
      then show ?thesis using tick_frame only_resolved_resolved_mono by blast
    qed
  next
    assume "m\<lparr>status := Resolved\<rparr> \<in> set (fst ?sn)"
    then have "market_id m \<in> resolved_ids (fst ?sn)" using resolved_ids_mem by fastforce
    then show ?thesis using tick_frame only_resolved_resolved_mono by blast
  qed
  have "fold (tick cfg) inputs (s, n) =
      fold (tick cfg) (drop (Suc i) inputs) (tick cfg (clock, readings, envs) ?sn)"
    by (subst split) simp
  with now show ?thesis by (simp add: fold_tick_keeps_resolved)
qed

section \<open>Consistency after every iteration\<close>

lemma steps_reachable:
  "(loop_step cfg obs)\<^sup>*\<^sup>* s t \<Longrightarrow> reachable cfg s \<Longrightarrow> reachable cfg t"
  by (induction rule: rtranclp_induct) (auto intro: reachable.step)

lemma loop_inv_polling: "loop_inv t \<Longrightarrow> pc t = Polling \<Longrightarrow> oracle_init t"
  by (simp add: loop_inv_def oracle_init_def marking_id_def)

lemma tick_consistent:
  assumes "oracle_init \<lparr>store = s, node = n, pc = Polling\<rparr>"
  shows "oracle_init \<lparr>store = fst (tick cfg inp (s, n)), node = snd (tick cfg inp (s, n)), pc = Polling\<rparr>"
proof (cases inp)
  case (fields clock readings envs)
  let ?s0 = "\<lparr>store = s, node = n, pc = Polling\<rparr>"
  have "(loop_step cfg (clock, readings, envs))\<^sup>*\<^sup>* ?s0
      (?s0\<lparr>store := fst (tick cfg (clock, readings, envs) (s, n)),
          node := snd (tick cfg (clock, readings, envs) (s, n))\<rparr>)"
    using tick_steps [of ?s0 cfg clock readings envs] by simp
  moreover have "reachable cfg ?s0" using assms by (rule reachable.init)
  ultimately have "reachable cfg (?s0\<lparr>store := fst (tick cfg (clock, readings, envs) (s, n)),
          node := snd (tick cfg (clock, readings, envs) (s, n))\<rparr>)"
    by (rule steps_reachable)
  then have "loop_inv (?s0\<lparr>store := fst (tick cfg (clock, readings, envs) (s, n)),
          node := snd (tick cfg (clock, readings, envs) (s, n))\<rparr>)"
    by (rule reachable_inv)
  then show ?thesis using fields by (simp add: loop_inv_polling)
qed

lemma fold_tick_consistent:
  "oracle_init \<lparr>store = fst sn, node = snd sn, pc = Polling\<rparr> \<Longrightarrow>
   oracle_init \<lparr>store = fst (fold (tick cfg) inputs sn), node = snd (fold (tick cfg) inputs sn), pc = Polling\<rparr>"
proof (induction inputs arbitrary: sn)
  case Nil
  then show ?case by simp
next
  case (Cons inp inputs)
  have "oracle_init \<lparr>store = fst (tick cfg inp sn), node = snd (tick cfg inp sn), pc = Polling\<rparr>"
    using tick_consistent [of "fst sn" "snd sn" cfg inp] Cons.prems by simp
  then show ?case using Cons.IH by simp
qed

end
