(* ===== verification/Spec2Isabelle.thy ===== *)
theory Spec2Isabelle
  imports Loop_Main
begin

text \<open>
  \<^bold>\<open>A verification development of the settlement oracle of \<open>Jemiiah/Maniifold\<close>.\<close>

  The program, \<open>src/Oracle/worker.py\<close>, watches prediction markets. Its resolution loop
  (\<open>main\<close>) reads the pending markets from the store (\<open>db\<close>) every 60 seconds. For each
  market whose deadline has passed it takes a reading from the outcome source
  (\<open>fetch_eth_staking_data\<close>) and decides the winning option (YES = 1 when the reading
  reaches the threshold, else NO = 2). It then runs the transaction pipeline
  (\<open>resolve_market\<close>), which loads the program \<open>prediction.aleo\<close> from an Aleo node,
  authorizes, executes, proves and verifies \<open>resolve_pool(market_id, option)\<close>, proves
  and verifies a fee bound to the execution id, and broadcasts the transaction. Only when
  the node answers 200 does the loop call \<open>db.mark_resolved\<close>.

  \<^bold>\<open>Theories and what they model.\<close>
  \<^item> \<^theory_text>\<open>Prelude\<close>: the exception monad on sums (\<open>bind_sum\<close>), the rule collections
    (\<open>sdk_simps\<close>, \<open>pipeline_defs\<close>, \<open>store_simps\<close>), and list lemmas on \<open>find\<close> and counting.
  \<^item> \<^theory_text>\<open>Python_Runtime\<close>: the Python semantics the code depends on. Floats are rationals
    rounded to binary64, ties to even (\<open>round_binary64\<close>), with no exponent bound.
    \<open>int / int\<close> is \<open>py_truediv\<close>, \<open>int()\<close> is \<open>py_int\<close>, \<open>str()\<close> of an int is
    \<open>py_str_int\<close>, and the truth value of an optional string is \<open>py_truthy_str\<close>.
  \<^item> \<^theory_text>\<open>Sdk\<close>: the interface of the external collaborators, the \<open>aleo\<close> SDK and the
    node. Artefacts are symbolic datatypes (authorizations, executions, execution ids,
    fees, transactions). One run's environment \<open>sdk_env\<close> says which calls raise, the
    program id a source declares, the prover's randomness and the node's HTTP answer.
    \<open>network\<close> holds the deployed programs and the log of answered broadcasts. Every
    pipeline theorem holds for all environments.
  \<^item> \<^theory_text>\<open>Outcome\<close>: \<open>fetch_eth_staking_data\<close> (lines 15--45) and \<open>winning_option\<close> (line 144).
  \<^item> \<^theory_text>\<open>Pipeline\<close>: \<open>config\<close>/\<open>load_config\<close> (lines 8--12) and \<open>resolve_market\<close>
    (lines 48--126), split as the code's comments split it: \<open>load_program\<close>,
    \<open>authorize_resolution\<close>, \<open>execute_and_prove\<close>, \<open>prove_fee\<close>, \<open>build_transaction\<close>
    and \<open>broadcast\<close>. Every call of the \<open>try\<close> block is \<open>sdk env c r\<close>. A raise ends
    the block with \<open>False\<close>, as the \<open>except\<close> does. The abstract specification is
    \<open>resolution_calls\<close> (the 21 calls in program order) with \<open>planned_transaction\<close>.
  \<^item> \<^theory_text>\<open>Store\<close>: the \<open>db\<close> module. It is not under \<open>src/\<close>, so it is modelled from the
    spec's contract: a list of market rows, \<open>get_pending_markets\<close>, \<open>mark_resolved\<close>
    and \<open>init_db\<close>.
  \<^item> \<^theory_text>\<open>Loop\<close>: \<open>main\<close> (lines 129--157) in two forms.
    The functional form: \<open>process_market\<close> (body of the \<open>for\<close> loop), \<open>scan\<close> (the
    \<open>for\<close> loop), \<open>tick\<close> (one iteration) and \<open>main\<close> (\<open>init_db\<close>, then a finite prefix
    of the unbounded loop). An iteration's input (\<open>tick_input\<close>) is its clock, the
    outcome source's answer for each market and each market's pipeline environment.
    The small-step form \<open>loop_step cfg obs\<close>, with a program counter: between
    iterations, scanning, or between a successful broadcast and \<open>mark_resolved\<close>. Each
    step is labelled with its iteration's input \<open>obs\<close>. Under a fixed label the
    relation is deterministic: the poll reads the clock, a due row is skipped only when
    its reading is absent, and otherwise it is attempted with that reading and that
    environment. \<open>reachable\<close> holds the states an external stop can leave, with the
    labels chosen freely. \<open>loop_inv\<close> is their invariant, proved by rule induction with
    one preservation lemma per kind of step.
  \<^item> \<^theory_text>\<open>Loop_Main\<close>: lemmas on sequences of iterations: the store frame
    (\<open>only_resolved\<close>), the broadcasts of an iteration, resolution of a due market
    whose pipeline succeeds, and consistency carried from the step relation to \<open>main\<close>
    through the refinement.
  \<^item> This theory: the properties of \<open>main\<close> over many iterations.

  \<^bold>\<open>What is proved.\<close>
  \<^item> Pipeline (C1--C7, C9):
    \<^item> the code runs the 21 calls in program order and stops at the first that fails;
    \<^item> it returns \<open>True\<close> iff all calls succeed and the node answers 200;
    \<^item> it changes the network by at most one broadcast, and only after both local
      verification gates passed;
    \<^item> a failure at any stage, or a missing setting, leaves the network unchanged;
    \<^item> the broadcast transaction proves \<open>resolve_pool(market_id, "<option>u64")\<close> and
      carries a fee bound to that execution's id;
    \<^item> the call is authorized against whatever program id the fetched source declares
      (C7): the id is never compared with \<open>prediction.aleo\<close>;
    \<^item> the option literal reads back as a \<open>64 word\<close>.
  \<^item> Outcome (C8): the decision rule, ties included. The snapshot itself is evaluated
    in \<^theory_text>\<open>Outcome\<close> (\<open>fetch_eth_staking_data_eq\<close>): it is the binary64 value
    \<open>28.75 - 2^-48\<close>.
  \<^item> Loop (C10--C15):
    \<^item> in every reachable state, a resolved market has exactly one accepted broadcast;
    \<^item> no market is ever accepted twice;
    \<^item> outside the marking window, accepted iff resolved;
    \<^item> a \<open>tick\<close> is the run of \<open>loop_step\<close> under its own input (refinement);
    \<^item> markets not due, or without a reading, stay pending;
    \<^item> the store changes only when the pipeline succeeded.
  \<^item> Many iterations (C16--C19):
    \<^item> \<open>main\<close> keeps store and network consistent and only ever marks markets resolved;
    \<^item> one iteration resolves a due market whose pipeline succeeds, whatever the other
      markets' pipelines do;
    \<^item> convergence: one such iteration anywhere in the run leaves the market resolved at
      the end (a failed broadcast is retried, scenario D);
    \<^item> the broadcasts of an iteration are for due markets with a reading, at most one
      each, in store order.

  \<^bold>\<open>Bounds and fuel.\<close> No fuel is used. Every recursion is structural or has a
  termination proof: \<open>dec_digits\<close> and \<open>log2_floor\<close> by \<open>fun\<close>, \<open>scan\<close> over the
  finite list of rows. The unbounded \<open>while True\<close> is not a function. It is the step
  relation, whose runs are arbitrary finite prefixes, plus \<open>main\<close> over a finite list of
  iterations. Every claim about \<open>main\<close> holds for every length of that list.

  \<^bold>\<open>Not modelled.\<close> These have no effect on the state the claims are about:
  \<^item> console output (\<open>print\<close>);
  \<^item> \<open>time.sleep\<close>;
  \<^item> reading the \<open>.env\<close> file (the environment is the argument of \<open>load_config\<close>);
  \<^item> the internals of the \<open>aleo\<close> SDK, the node and \<open>requests\<close>, which are parameters;
  \<^item> the JSON serialisation, which is treated as faithful: the node receives the
    symbolic transaction.
  Exceptions raised outside the \<open>try\<close> of \<open>resolve_market\<close> (by \<open>db\<close>, a comparison or
  a \<open>print\<close>) would end \<open>main\<close>; they are not modelled, and neither is a restart of
  the process. A \<open>requests.post\<close> that raises is taken not to have reached the node.
  Python floats beyond the normal range (overflow, subnormals) are not modelled.

  \<^bold>\<open>Further work.\<close>
  \<^item> Properties of \<open>round_binary64\<close>: exact on integers below \<open>2^53\<close>, monotone, and
    within half a unit in the last place.
  \<^item> Restarts: \<open>reachable\<close> from a stopped state with the store reloaded, which
    exposes the window between broadcast and \<open>mark_resolved\<close>.
  \<^item> A serialisation model of \<open>to_json\<close> with its round trip.
\<close>

text \<open>C16: over any number of iterations of \<open>while True\<close>, from a store with unique market
  ids that agrees with the network (a market is resolved exactly when one resolution of
  it was accepted), \<open>main\<close> only ever marks markets resolved (no row loses its status or
  changes its terms), keeps the ids unique and keeps store and network in agreement.\<close>

theorem main_consistent:
  assumes "store_wf s" and "\<forall>mid. accepted n mid = (if mid \<in> resolved_ids s then 1 else 0)"
  shows "only_resolved s (fst (main cfg inputs (s, n))) \<and> store_wf (fst (main cfg inputs (s, n))) \<and>
    (\<forall>mid. accepted (snd (main cfg inputs (s, n))) mid =
       (if mid \<in> resolved_ids (fst (main cfg inputs (s, n))) then 1 else 0))"
proof -
  have init: "oracle_init \<lparr>store = fst (s, n), node = snd (s, n), pc = Polling\<rparr>"
    using assms by (simp add: oracle_init_def)
  have "main cfg inputs (s, n) = fold (tick cfg) inputs (s, n)"
    by (simp add: main_def init_db_def)
  then show ?thesis
    using fold_tick_consistent [OF init, of cfg inputs] fold_tick_frame [of "(s, n)" cfg inputs]
    by (simp add: oracle_init_def)
qed

theorem main_consistent_witness:
  "only_resolved [demo_market] (fst (main demo_cfg [(101, code_readings, \<lambda>_. demo_env 7)] ([demo_market], demo_net))) \<and>
   store_wf (fst (main demo_cfg [(101, code_readings, \<lambda>_. demo_env 7)] ([demo_market], demo_net))) \<and>
   (\<forall>mid. accepted (snd (main demo_cfg [(101, code_readings, \<lambda>_. demo_env 7)] ([demo_market], demo_net))) mid =
      (if mid \<in> resolved_ids (fst (main demo_cfg [(101, code_readings, \<lambda>_. demo_env 7)] ([demo_market], demo_net)))
       then 1 else 0))"
  by (rule main_consistent)
    (simp_all add: store_wf_def demo_market_def accepted_def demo_net_def resolved_ids_def)



text \<open>C18: convergence. A market is resolved by the end of \<open>main\<close> as soon as one
  iteration finds it due, with a reading, and with a pipeline run that succeeds, whatever
  the earlier and later iterations did (failed broadcasts, missing readings, other
  markets): a market left pending by a failure is retried and resolved, and stays
  resolved.\<close>

theorem main_resolves_due_market:
  assumes "ORACLE_PRIVATE_KEY cfg = Some key" "key \<noteq> []" "ALEO_NODE_URL cfg = Some node_url"
    "node_url \<noteq> []" and "store_wf s" and "m \<in> set s"
    and "i < length inputs" and "inputs ! i = (clock, readings, envs)"
    and "deadline m \<le> py_int clock" and "readings (market_id m) = Some v"
    and "\<forall>c. \<not> raises (envs (market_id m)) c"
    and "\<forall>tx. post_response (envs (market_id m)) (broadcast_url node_url) tx = Some (200, body)"
    and "programs n program_id \<noteq> None"
  shows "market_id m \<in> resolved_ids (fst (main cfg inputs (s, n)))"
proof -
  have "market_id m \<in> resolved_ids (fst (fold (tick cfg) inputs (s, n)))"
  proof (rule fold_tick_resolves [where readings = readings, OF assms(5-10)])
    show "\<forall>n'. programs n' = programs n \<longrightarrow>
        fst (resolve_market cfg (envs (market_id m)) (market_id m) (winning_option v (threshold m)) n')"
      using assms(1-4,11-13) by (auto intro: resolve_market_ready)
  qed
  then show ?thesis by (simp add: main_def init_db_def)
qed

theorem main_resolves_due_market_witness:
  "''1field'' \<in> resolved_ids (fst (main demo_cfg
      [(101, code_readings, \<lambda>_. (demo_env 7)\<lparr>post_response := (\<lambda>_ _. Some (503, ''busy''))\<rparr>),
       (161, code_readings, \<lambda>_. demo_env 8)] ([demo_market], demo_net)))"
proof -
  have "market_id demo_market \<in> resolved_ids (fst (main demo_cfg
      [(101, code_readings, \<lambda>_. (demo_env 7)\<lparr>post_response := (\<lambda>_ _. Some (503, ''busy''))\<rparr>),
       (161, code_readings, \<lambda>_. demo_env 8)] ([demo_market], demo_net)))"
    by (rule main_resolves_due_market [where key = "''APrivateKey1''" and node_url = "''http://node''"
          and i = 1 and clock = 161 and readings = code_readings and envs = "\<lambda>_. demo_env 8"
          and v = "2875 / 100 - 1 / 2 ^ 48" and body = "''at1tx''"])
      (simp_all add: demo_cfg_def store_wf_def demo_market_def py_int_def code_readings_def
        fetch_eth_staking_data_eq demo_env_def demo_net_def)
  then show ?thesis by (simp add: demo_market_def)
qed

text \<open>C19: the broadcasts one iteration adds to the node's log are for pending markets that
  are due and have a reading, at most one per market, in the order of the store: a
  market before its deadline (scenario E) or without a reading (scenario C) is not
  broadcast, and no market is broadcast twice in one pass.\<close>

theorem tick_broadcasts_due_markets:
  "\<exists>new. posts (snd (tick cfg (clock, readings, envs) (s, n))) = posts n @ new \<and>
     subseq (map (\<lambda>(u, tx, st). auth_market (tx_request tx)) new)
       (map (\<lambda>r. Some (fst r))
          (filter (\<lambda>r. fst (snd r) \<le> py_int clock \<and> readings (fst r) \<noteq> None) (get_pending_markets s)))"
  using scan_posts [of cfg readings envs "py_int clock" "get_pending_markets s" "(s, n)"]
  by (simp add: tick_def)

end
